theory Spec2Isabelle
  imports Main "HOL-Library.Word"
begin

unbundle bit_operations_syntax

section \<open>C characters, strings and buffers\<close>

text \<open>
  Bytes are \<^typ>\<open>char\<close>; the casts \<^verbatim>\<open>(unsigned char)\<close> and the mask
  \<^verbatim>\<open>& 0xff\<close> of the source read a byte as a number in 0..255, which is
  \<^term>\<open>of_char c :: nat\<close>. The classification functions are those of the C locale.
\<close>

definition NUL :: char where
  "NUL = CHR 0x00"

definition isprint :: "char \<Rightarrow> bool" where
  "isprint c = (32 \<le> (of_char c :: nat) \<and> (of_char c :: nat) \<le> 126)"

definition isspace :: "char \<Rightarrow> bool" where
  "isspace c = ((of_char c :: nat) = 32 \<or> (9 \<le> (of_char c :: nat) \<and> (of_char c :: nat) \<le> 13))"

definition hexdigit :: "nat \<Rightarrow> char" where
  "hexdigit n = ''0123456789abcdef'' ! (n mod 16)"

text \<open>The conversion \<^verbatim>\<open>%02x\<close> applied to \<^verbatim>\<open>(unsigned)(c & 0xff)\<close>.\<close>

definition hex2 :: "char \<Rightarrow> string" where
  "hex2 c = [hexdigit ((of_char c :: nat) div 16), hexdigit ((of_char c :: nat) mod 16)]"

text \<open>The format \<^verbatim>\<open>"\\x%02x"\<close>: a backslash, an x and two hex digits.\<close>

definition esc_hex :: "char \<Rightarrow> string" where
  "esc_hex c = CHR 0x5C # CHR ''x'' # hex2 c"

text \<open>
  What can go wrong with memory. A buffer is the list of the bytes of its allocation: a
  store at an offset that is not below its length is \<open>WriteOverflow\<close>, a load there, or
  a \<^verbatim>\<open>strlen\<close> that finds no terminator, is \<open>ReadOverrun\<close>. The other faults are a
  store before the start of an array, a signed operation or conversion whose result does
  not fit, a failed \<^verbatim>\<open>assert\<close>, and the use of a null pointer.
\<close>

datatype fault =
  WriteOverflow | ReadOverrun | WriteUnderflow | SignedOverflow | AssertFailed | NullPointer

text \<open>\<^verbatim>\<open>size_t\<close> is 64 bits wide; its arithmetic wraps.\<close>

definition SIZE_MOD :: nat where
  "SIZE_MOD = 2 ^ 64"

definition size_add :: "nat \<Rightarrow> nat \<Rightarrow> nat" where
  "size_add a b = (a + b) mod SIZE_MOD"

definition size_sub :: "nat \<Rightarrow> nat \<Rightarrow> nat" where
  "size_sub a b = (a + SIZE_MOD - b mod SIZE_MOD) mod SIZE_MOD"

definition c_strlen :: "char list \<Rightarrow> fault + nat" where
  "c_strlen m = (if NUL \<in> set m then Inr (length (takeWhile (\<lambda>c. c \<noteq> NUL) m)) else Inl ReadOverrun)"

text \<open>The string a buffer holds: its bytes before the first terminator.\<close>

definition c_string :: "char list \<Rightarrow> string" where
  "c_string m = takeWhile (\<lambda>c. c \<noteq> NUL) m"

definition peek :: "char list \<Rightarrow> nat \<Rightarrow> fault + char" where
  "peek m i = (if i < length m then Inr (m ! i) else Inl ReadOverrun)"

definition poke :: "char list \<Rightarrow> nat \<Rightarrow> char \<Rightarrow> fault + char list" where
  "poke m i c = (if i < length m then Inr (m[i := c]) else Inl WriteOverflow)"

text \<open>Storing a run of bytes from offset \<open>off\<close> on.\<close>

definition pokes :: "char list \<Rightarrow> nat \<Rightarrow> char list \<Rightarrow> fault + char list" where
  "pokes m off bs =
     (if off + length bs \<le> length m
      then Inr (take off m @ bs @ drop (off + length bs) m)
      else Inl WriteOverflow)"

text \<open>
  \<^verbatim>\<open>snprintf(m + off, n, ...)\<close> where the conversions produce the text \<open>s\<close>: nothing is
  stored when \<open>n\<close> is 0, otherwise at most \<open>n - 1\<close> characters of \<open>s\<close> and a terminator.
  The bound \<open>n\<close> is what the caller passes, not the size of the allocation.
\<close>

definition snprintf :: "char list \<Rightarrow> nat \<Rightarrow> nat \<Rightarrow> string \<Rightarrow> fault + char list" where
  "snprintf m off n s = (if n = 0 then Inr m else pokes m off (take (n - 1) s @ [NUL]))"

section \<open>Visualization helpers\<close>

subsection \<open>visibilize\<close>

text \<open>
  The test \<^verbatim>\<open>isprint(*sp) || (sp[0] == '\n' && sp[1] == '\0') || (sp[0] == '\r' && sp[2] == '\0')\<close>
  on the memory from \<^verbatim>\<open>sp\<close> on; \<^verbatim>\<open>sp[1]\<close> and \<^verbatim>\<open>sp[2]\<close> are loaded only where
  the short-circuit evaluation of the source loads them.
\<close>

definition passes_verbatim :: "char list \<Rightarrow> fault + bool" where
  "passes_verbatim sp =
     (case peek sp 0 of Inl f \<Rightarrow> Inl f | Inr c \<Rightarrow>
        if isprint c then Inr True
        else if c = CHR 0x0A
          then (case peek sp 1 of Inl f \<Rightarrow> Inl f | Inr c1 \<Rightarrow> Inr (c1 = NUL))
        else if c = CHR 0x0D
          then (case peek sp 2 of Inl f \<Rightarrow> Inl f | Inr c2 \<Rightarrow> Inr (c2 = NUL))
        else Inr False)"

text \<open>
  The loop of \<^verbatim>\<open>visibilize\<close>: the third argument is the source memory from \<^verbatim>\<open>sp\<close> on,
  and running off its end is a \<open>ReadOverrun\<close>.
\<close>

fun visibilize_loop :: "char list \<Rightarrow> nat \<Rightarrow> char list \<Rightarrow> fault + char list" where
  "visibilize_loop buf2 len2 [] = Inl ReadOverrun"
| "visibilize_loop buf2 len2 (c # sp) =
     (if c = NUL then Inr buf2
      else case c_strlen buf2 of
        Inl f \<Rightarrow> Inl f
      | Inr n \<Rightarrow>
          if \<not> size_add n 4 < len2 then Inr buf2
          else
            (case passes_verbatim (c # sp) of
               Inl f \<Rightarrow> Inl f
             | Inr verbatim \<Rightarrow>
                 (case (if verbatim then snprintf buf2 n 2 [c] else snprintf buf2 n 6 (esc_hex c)) of
                    Inl f \<Rightarrow> Inl f
                  | Inr buf2' \<Rightarrow> visibilize_loop buf2' len2 sp)))"

definition visibilize :: "char list \<Rightarrow> nat \<Rightarrow> char list \<Rightarrow> fault + char list" where
  "visibilize buf2 len2 buf =
     (case poke buf2 0 NUL of
        Inl f \<Rightarrow> Inl f
      | Inr b \<Rightarrow> visibilize_loop b len2 buf)"

subsection \<open>cond_hexdump\<close>

text \<open>
  Modelled from the spec: \<^verbatim>\<open>str_appendf\<close> is declared in \<^verbatim>\<open>strfuncs.h\<close>, which is not
  among the sources; it appends formatted text to the string a buffer holds, truncated to
  the size the caller gives for the buffer, as
  \<^verbatim>\<open>vsnprintf(str + strlen(str), alloc_size - strlen(str), ...)\<close> does.
\<close>

definition str_appendf :: "char list \<Rightarrow> nat \<Rightarrow> string \<Rightarrow> fault + char list" where
  "str_appendf str alloc_size s =
     (case c_strlen str of
        Inl f \<Rightarrow> Inl f
      | Inr n \<Rightarrow> snprintf str n (size_sub alloc_size n) s)"

text \<open>
  The copying loop of the printable branch. \<open>tx\<close> is the value of
  \<^verbatim>\<open>TEXTUAL_PACKET_TYPE(session.lexer.type)\<close>, \<open>i\<close> and \<open>j\<close> are the loop's indices, and
  the last argument holds \<^verbatim>\<open>buf[i]\<close> to \<^verbatim>\<open>buf[len - 1]\<close>. A \<^verbatim>\<open>continue\<close> goes on with
  \<open>i + 1\<close> and the same \<open>j\<close>.
\<close>

fun cond_hexdump_copy ::
  "bool \<Rightarrow> nat \<Rightarrow> nat \<Rightarrow> char list \<Rightarrow> nat \<Rightarrow> nat \<Rightarrow> char list \<Rightarrow> fault + char list" where
  "cond_hexdump_copy tx len len2 buf2 i j [] = Inr buf2"
| "cond_hexdump_copy tx len len2 buf2 i j (c # rest) =
     (if \<not> j < size_sub len2 1 then Inr buf2
      else if isprint c then
        (case poke buf2 j c of
           Inl f \<Rightarrow> Inl f
         | Inr b1 \<Rightarrow>
             (case poke b1 (j + 1) NUL of
                Inl f \<Rightarrow> Inl f
              | Inr b2 \<Rightarrow> cond_hexdump_copy tx len len2 b2 (i + 1) (j + 1) rest))
      else if tx \<and> i = size_sub len 1 \<and> c = CHR 0x0A then
        cond_hexdump_copy tx len len2 buf2 (i + 1) j rest
      else if tx \<and> i = size_sub len 2 \<and> c = CHR 0x0D then
        cond_hexdump_copy tx len len2 buf2 (i + 1) j rest
      else
        (case c_strlen buf2 of
           Inl f \<Rightarrow> Inl f
         | Inr n \<Rightarrow>
             (case snprintf buf2 j (size_sub len2 n) (esc_hex c) of
                Inl f \<Rightarrow> Inl f
              | Inr b1 \<Rightarrow>
                  (case c_strlen b1 of
                     Inl f \<Rightarrow> Inl f
                   | Inr n' \<Rightarrow> cond_hexdump_copy tx len len2 b1 (i + 1) n' rest))))"

text \<open>The loop of the hex dump branch.\<close>

fun cond_hexdump_hex :: "nat \<Rightarrow> char list \<Rightarrow> char list \<Rightarrow> fault + char list" where
  "cond_hexdump_hex len2 buf2 [] = Inr buf2"
| "cond_hexdump_hex len2 buf2 (c # rest) =
     (case str_appendf buf2 len2 (hex2 c) of
        Inl f \<Rightarrow> Inl f
      | Inr b \<Rightarrow> cond_hexdump_hex len2 b rest)"

text \<open>
  \<^verbatim>\<open>cond_hexdump(buf2, len2, buf, len)\<close>. The destination is the list of the bytes it
  holds when the function is entered (the source never assumes anything about them); the
  result is the destination when the function returns.
\<close>

definition cond_hexdump ::
  "bool \<Rightarrow> char list \<Rightarrow> nat \<Rightarrow> char list \<Rightarrow> nat \<Rightarrow> fault + char list" where
  "cond_hexdump tx buf2 len2 buf len =
     (if length buf < len then Inl ReadOverrun
      else if list_all (\<lambda>c. isprint c \<or> isspace c) (take len buf)
        then cond_hexdump_copy tx len len2 buf2 0 0 (take len buf)
      else
        (case poke buf2 0 NUL of
           Inl f \<Rightarrow> Inl f
         | Inr b \<Rightarrow> cond_hexdump_hex len2 b (take len buf)))"

section \<open>The monitor's data\<close>

record timespec_t =
  tv_sec :: int
  tv_nsec :: int

record timedelta_t =
  real :: timespec_t
  clock :: timespec_t

text \<open>
  A device-type descriptor, \<^verbatim>\<open>struct gps_type_t\<close>, with the members the monitor uses. A
  method is \<open>None\<close> where the pointer is \<^verbatim>\<open>NULL\<close>, and otherwise the function from the
  arguments the monitor passes to the value the method returns; what the method does to
  the device is recorded as an event when it is called. The rate switcher takes a
  \<^verbatim>\<open>double\<close>, which stands here as the text \<^verbatim>\<open>strtod\<close> reads it from.
\<close>

record gps_type_t =
  type_name :: string
  flags :: "32 word"
  mode_switcher :: "(int \<Rightarrow> unit) option"
  speed_switcher :: "(nat \<Rightarrow> char \<Rightarrow> int \<Rightarrow> bool) option"
  rate_switcher :: "(string \<Rightarrow> bool) option"
  control_send :: "(char list \<Rightarrow> int) option"

text \<open>The functions that \<^verbatim>\<open>monitor_nmea0183.c\<close> installs in its monitor objects.\<close>

datatype hook = Nmea_initialize | Nmea_update | Nmea_wrap | Ashtech_command

record monitor_object_t =
  initialize :: "hook option"
  update :: "hook option"
  command :: "hook option"
  wrap :: "hook option"
  min_y :: int
  min_x :: int
  driver :: gps_type_t

text \<open>An argument of a \<^verbatim>\<open>printf\<close>-style call.\<close>

datatype arg = ArgS string | ArgC char | ArgI int

text \<open>
  What the monitor does to the world outside its own variables, in the order it does it:
  calls of hooks and of device methods, calls into the session library and the terminal,
  and text written to a stream (as the format and its arguments, or as the text).
\<close>

datatype event =
    Invoke hook
  | Monitor_complain string "arg list"
  | Complain string "arg list"
  | Clearok
  | Clear
  | Refresh_statwin
  | Refresh_cmdwin
  | Rate_switcher string string
  | Mode_switcher string int
  | Speed_switcher string nat char int
  | Gpsd_set_speed nat char nat
  | Tcdrain
  | Nanosleep int int
  | Control_send string "char list"
  | Gpsd_write "char list"
  | Gpsd_switch_driver string
  | Fclose_logfile
  | Fopen_append string
  | Logfile_printf string "arg list"
  | Logfile_fwrite "char list"
  | Stdout_fputs string
  | Stderr_fprintf string "arg list"
  | Stderr_fputs string
  | Ntp_latch timedelta_t
  | Pps_thread_deactivate
  | Gpsd_close
  | Tcsetattr_cooked
  | Exit int

text \<open>
  The declarations the monitor takes from gpsd's headers and libraries, which are not
  among the sources: constants and macros of \<^verbatim>\<open>gpsd.h\<close>, the drivers, \<^verbatim>\<open>BUFSIZ\<close>, and
  what the calls into the session library and the C library answer. They are parameters
  of the model. \<open>json_toff_read\<close> and \<open>json_pps_read\<close> give the status and the sample the
  parser leaves behind; \<open>fwrite_logfile\<close> gives the count \<^verbatim>\<open>fwrite\<close> returns;
  \<open>ntp_latch\<close> gives, from the new fix time and the sample it is passed, the sample and the
  reference fix (\<^verbatim>\<open>pps_thread.fix_in\<close>) it leaves behind.
\<close>

record extern =
  NMEA_PACKET :: int
  BAD_PACKET :: int
  DRIVER_STICKY :: "32 word"
  TEXTUAL_PACKET_TYPE :: "int \<Rightarrow> bool"
  driver_nmea0183 :: gps_type_t
  driver_json_passthrough :: gps_type_t
  gpsd_drivers :: "gps_type_t list"
  BUFSIZ :: nat
  fopen_append :: "string \<Rightarrow> bool"
  gpsd_hexpack :: "string \<Rightarrow> int \<times> char list"
  gpsd_write :: "char list \<Rightarrow> int"
  json_toff_read :: "string \<Rightarrow> int \<times> timedelta_t"
  json_pps_read :: "string \<Rightarrow> int \<times> timedelta_t"
  json_error_string :: "int \<Rightarrow> string"
  timespec_str :: "timespec_t \<Rightarrow> string"
  TS_SUB :: "timespec_t \<Rightarrow> timespec_t \<Rightarrow> timespec_t"
  fwrite_logfile :: "char list \<Rightarrow> nat"
  ntp_latch :: "timespec_t \<Rightarrow> timedelta_t \<Rightarrow> timedelta_t \<times> timedelta_t"

text \<open>
  The variables of \<^verbatim>\<open>gpsmon.c\<close> and the members of \<^verbatim>\<open>session\<close> and \<^verbatim>\<open>context\<close> that it
  reads or writes. \<open>logfile\<close> is \<open>None\<close> for \<^verbatim>\<open>NULL\<close> and otherwise the path the stream
  was opened on; \<open>active\<close> and \<open>fallback\<close> hold the object they point to; \<open>last_type\<close> is
  the static variable of \<^verbatim>\<open>select_packet_monitor\<close>; \<open>trace\<close> collects the events.
\<close>

record gpsmon =
  serial :: bool
  readonly :: bool
  curses_active :: bool
  logfile :: "string option"
  active :: "monitor_object_t option"
  fallback :: "gps_type_t option"
  time_offset :: timedelta_t
  last_type :: int
  LINES :: int
  COLS :: int
  device_type :: "gps_type_t option"
  lexer_type :: int
  lexer_counter :: nat
  outbuffer :: "char list"
  outbuflen :: nat
  dev_parity :: char
  dev_stopbits :: nat
  toff :: timedelta_t
  pps_out :: timedelta_t
  ppsout_count :: nat
  newdata_time :: timespec_t
  fix_in :: timedelta_t
  trace :: "event list"

text \<open>
  How a function of the monitor ends when it does not return: by
  \<^verbatim>\<open>longjmp(terminate, code)\<close>, with the variables as they are at the jump, or by a fault.
\<close>

datatype stop = Terminate int gpsmon | Fault fault

definition emit :: "event \<Rightarrow> gpsmon \<Rightarrow> gpsmon" where
  "emit e s = s\<lparr>trace := trace s @ [e]\<rparr>"

section \<open>The monitor objects and the switch between them\<close>

text \<open>
  \<^verbatim>\<open>HEIGHT\<close> and \<^verbatim>\<open>WIDTH\<close> of \<^verbatim>\<open>monitor_nmea0183.c\<close>:
  \<open>HEIGHT_1 + HEIGHT_2 + HEIGHT_3 + HEIGHT_4\<close> and \<open>WIDTH_L + WIDTH_M + WIDTH_R - 2\<close>.
\<close>

definition HEIGHT :: int where
  "HEIGHT = 3 + 3 + 9 + 6"

definition WIDTH :: int where
  "WIDTH = 25 + 27 + 30 - 2"

definition nmea_mmt :: "extern \<Rightarrow> monitor_object_t" where
  "nmea_mmt E =
     \<lparr>initialize = Some Nmea_initialize, update = Some Nmea_update, command = None,
      wrap = Some Nmea_wrap, min_y = HEIGHT, min_x = WIDTH, driver = driver_nmea0183 E\<rparr>"

definition json_mmt :: "extern \<Rightarrow> monitor_object_t" where
  "json_mmt E =
     \<lparr>initialize = None, update = None, command = None, wrap = None,
      min_y = 0, min_x = 80, driver = driver_json_passthrough E\<rparr>"

definition ashtech_mmt :: "gps_type_t \<Rightarrow> monitor_object_t" where
  "ashtech_mmt driver_ashtech =
     \<lparr>initialize = Some Nmea_initialize, update = Some Nmea_update,
      command = Some Ashtech_command, wrap = Some Nmea_wrap,
      min_y = HEIGHT, min_x = WIDTH, driver = driver_ashtech\<rparr>"

definition monitor_objects :: "extern \<Rightarrow> monitor_object_t list" where
  "monitor_objects E = [nmea_mmt E, json_mmt E]"

text \<open>
  The search loop of \<^verbatim>\<open>switch_type\<close>: the first object whose driver has the wanted name
  (\<^verbatim>\<open>strcmp(...) == 0\<close>).
\<close>

fun find_trial :: "monitor_object_t list \<Rightarrow> string \<Rightarrow> monitor_object_t option" where
  "find_trial [] name = None"
| "find_trial (trial # rest) name =
     (if type_name (driver trial) = name then Some trial else find_trial rest name)"

text \<open>
  \<^verbatim>\<open>switch_type\<close> over a list of monitor objects. \<^verbatim>\<open>leftover\<close> is computed and not used.
\<close>

definition switch_type_in ::
  "monitor_object_t list \<Rightarrow> gps_type_t \<Rightarrow> gpsmon \<Rightarrow> bool \<times> gpsmon" where
  "switch_type_in objects devtype s =
     (case find_trial objects (type_name devtype) of
        Some newobject \<Rightarrow>
          if LINES s < min_y newobject + 1 \<or> COLS s < min_x newobject
          then (True, emit (Monitor_complain ''%s requires %dx%d screen''
                  [ArgS (type_name (driver newobject)), ArgI (min_x newobject),
                   ArgI (min_y newobject + 1)]) s)
          else
            (let s1 = (case active s of
                         None \<Rightarrow> s
                       | Some old \<Rightarrow>
                           (case wrap old of None \<Rightarrow> s | Some h \<Rightarrow> emit (Invoke h) s));
                 s2 = s1\<lparr>active := Some newobject\<rparr>
             in (True, emit Clear (emit Clearok s2)))
      | None \<Rightarrow>
          (False, emit (Monitor_complain ''No monitor matches %s.'' [ArgS (type_name devtype)]) s))"

definition switch_type :: "extern \<Rightarrow> gps_type_t \<Rightarrow> gpsmon \<Rightarrow> bool \<times> gpsmon" where
  "switch_type E devtype s = switch_type_in (monitor_objects E) devtype s"

text \<open>
  \<^verbatim>\<open>select_packet_monitor(device)\<close>, where \<open>device\<close> is the session. \<^verbatim>\<open>TERM_DRIVER_SWITCH\<close>
  is 2.
\<close>

definition TERM_SELECT_FAILED :: int where "TERM_SELECT_FAILED = 1"
definition TERM_DRIVER_SWITCH :: int where "TERM_DRIVER_SWITCH = 2"
definition TERM_EMPTY_READ :: int where "TERM_EMPTY_READ = 3"
definition TERM_READ_ERROR :: int where "TERM_READ_ERROR = 4"
definition TERM_SIGNAL :: int where "TERM_SIGNAL = 5"
definition TERM_QUIT :: int where "TERM_QUIT = 6"

text \<open>The descriptor the lookup is made with when the packet type has changed.\<close>

definition active_type :: "extern \<Rightarrow> gps_type_t \<Rightarrow> int \<Rightarrow> gps_type_t" where
  "active_type E devtype ltype =
     (if NMEA_PACKET E = ltype \<and> 0 \<noteq> (flags devtype AND DRIVER_STICKY E)
      then driver_nmea0183 E else devtype)"

definition select_packet_monitor_in ::
  "monitor_object_t list \<Rightarrow> extern \<Rightarrow> gpsmon \<Rightarrow> stop + gpsmon" where
  "select_packet_monitor_in objects E s =
     (case (if lexer_type s \<noteq> last_type s then
              (case device_type s of
                 None \<Rightarrow> Inl (Fault NullPointer)
               | Some devtype \<Rightarrow>
                   (case switch_type_in objects (active_type E devtype (lexer_type s)) s of
                      (False, s1) \<Rightarrow> Inl (Terminate TERM_DRIVER_SWITCH s1)
                    | (True, s1) \<Rightarrow>
                        Inr ((emit Refresh_cmdwin (emit Refresh_statwin s1))
                               \<lparr>last_type := lexer_type s\<rparr>)))
            else Inr s) of
        Inl e \<Rightarrow> Inl e
      | Inr s2 \<Rightarrow>
          (case active s2 of
             None \<Rightarrow> Inr s2
           | Some a \<Rightarrow>
               if 0 < outbuflen s2 then
                 (case update a of None \<Rightarrow> Inr s2 | Some h \<Rightarrow> Inr (emit (Invoke h) s2))
               else Inr s2))"

definition select_packet_monitor :: "extern \<Rightarrow> gpsmon \<Rightarrow> stop + gpsmon" where
  "select_packet_monitor E s = select_packet_monitor_in (monitor_objects E) E s"

section \<open>The command processor\<close>

subsection \<open>Reading the command line\<close>

text \<open>
  A command line is given as the characters before its terminator. \<^verbatim>\<open>line[k]\<close> is a
  character of the line, the terminator at \<open>k = length line\<close>, and a load past the
  terminator beyond that; the string at \<^verbatim>\<open>line + k\<close> is read the same way.
\<close>

definition cget :: "string \<Rightarrow> nat \<Rightarrow> fault + char" where
  "cget line k =
     (if k < length line then Inr (line ! k)
      else if k = length line then Inr NUL
      else Inl ReadOverrun)"

definition cstr_at :: "string \<Rightarrow> nat \<Rightarrow> fault + string" where
  "cstr_at line k = (if k \<le> length line then Inr (drop k line) else Inl ReadOverrun)"

text \<open>Continuing with the value of a step that may fault.\<close>

fun fault_in :: "fault + 'a \<Rightarrow> ('a \<Rightarrow> stop + 'b) \<Rightarrow> stop + 'b" where
  "fault_in (Inl f) k = Inl (Fault f)"
| "fault_in (Inr x) k = k x"

text \<open>
  The loop \<^verbatim>\<open>for (arg = line + 2; *arg != '\0' && isspace(*arg); arg++) arg++;\<close> from the
  offset \<open>k\<close> of \<^verbatim>\<open>arg\<close>: the body and the increment each advance \<^verbatim>\<open>arg\<close>.
\<close>

function skip_loop :: "string \<Rightarrow> nat \<Rightarrow> fault + nat" where
  "skip_loop line k =
     (if length line < k then Inl ReadOverrun
      else if k < length line \<and> line ! k \<noteq> NUL \<and> isspace (line ! k) then skip_loop line (k + 2)
      else Inr k)"
  by pat_completeness auto
termination
  by (relation "measure (\<lambda>(line, k). length line - k)") auto

declare skip_loop.simps [simp del]

text \<open>The offset of \<^verbatim>\<open>arg\<close> in the line, as the first statement of \<^verbatim>\<open>do_command\<close> sets it.\<close>

definition arg_offset :: "string \<Rightarrow> fault + nat" where
  "arg_offset line =
     (case cget line 1 of
        Inl f \<Rightarrow> Inl f
      | Inr c1 \<Rightarrow>
          if isspace c1 then
            (case skip_loop line 2 of Inl f \<Rightarrow> Inl f | Inr k \<Rightarrow> Inr (k + 1))
          else Inr 1)"

definition isdigit :: "char \<Rightarrow> bool" where
  "isdigit c = (48 \<le> (of_char c :: nat) \<and> (of_char c :: nat) \<le> 57)"

fun digits_value :: "nat \<Rightarrow> string \<Rightarrow> nat" where
  "digits_value acc [] = acc"
| "digits_value acc (c # cs) =
     (if isdigit c then digits_value (acc * 10 + ((of_char c :: nat) - 48)) cs else acc)"

text \<open>
  \<^verbatim>\<open>atoi\<close>: white space, an optional sign, decimal digits. The C standard leaves a value
  that does not fit an \<^verbatim>\<open>int\<close> undefined; it is a fault here.
\<close>

definition atoi :: "string \<Rightarrow> fault + int" where
  "atoi s =
     (let t = dropWhile isspace s;
          neg = (t \<noteq> [] \<and> hd t = CHR ''-'');
          u = (if t \<noteq> [] \<and> (hd t = CHR ''-'' \<or> hd t = CHR ''+'') then tl t else t);
          v = int (digits_value 0 u);
          r = (if neg then - v else v)
      in if - (2 ^ 31) \<le> r \<and> r < 2 ^ 31 then Inr r else Inl SignedOverflow)"

text \<open>The conversions between \<^verbatim>\<open>int\<close> and \<^verbatim>\<open>unsigned int\<close>, both 32 bits wide.\<close>

definition to_unsigned :: "int \<Rightarrow> nat" where
  "to_unsigned r = nat (r mod 2 ^ 32)"

definition to_int :: "nat \<Rightarrow> int" where
  "to_int n = (if n mod 2 ^ 32 < 2 ^ 31 then int (n mod 2 ^ 32) else int (n mod 2 ^ 32) - 2 ^ 32)"

text \<open>
  \<^verbatim>\<open>strchr(s, c) != NULL\<close>: the terminator of \<open>s\<close> counts as one of its characters.
\<close>

definition strchr_found :: "string \<Rightarrow> char \<Rightarrow> bool" where
  "strchr_found s c = (c \<in> set s \<or> c = NUL)"

text \<open>The offset of the first \<open>c\<close> in \<open>s\<close>, for a \<open>c\<close> that is not the terminator.\<close>

definition strchr_index :: "string \<Rightarrow> char \<Rightarrow> nat option" where
  "strchr_index s c = (if c \<in> set s then Some (length (takeWhile (\<lambda>d. d \<noteq> c) s)) else None)"

text \<open>\<^verbatim>\<open>strcspn(line, "01") == strlen(line)\<close>.\<close>

definition no_01 :: "string \<Rightarrow> bool" where
  "no_01 line = (CHR ''0'' \<notin> set line \<and> CHR ''1'' \<notin> set line)"

text \<open>\<^verbatim>\<open>strstr(haystack, needle) != NULL\<close>.\<close>

fun strstr_found :: "string \<Rightarrow> string \<Rightarrow> bool" where
  "strstr_found [] needle = (needle = [])"
| "strstr_found (h # hs) needle =
     (take (length needle) (h # hs) = needle \<or> strstr_found hs needle)"

subsection \<open>Reporting\<close>

text \<open>
  \<^verbatim>\<open>complain\<close> prints the formatted message and a newline on the standard error stream;
  \<^verbatim>\<open>announce_log\<close> prints it to the log file when one is open.
\<close>

definition complain :: "string \<Rightarrow> arg list \<Rightarrow> gpsmon \<Rightarrow> gpsmon" where
  "complain fmt args s = emit (Complain fmt args) s"

definition announce_log :: "string \<Rightarrow> arg list \<Rightarrow> gpsmon \<Rightarrow> gpsmon" where
  "announce_log fmt args s =
     (case logfile s of None \<Rightarrow> s | Some path \<Rightarrow> emit (Logfile_printf fmt args) s)"

text \<open>The \<^verbatim>\<open>tcdrain\<close> and the 50 ms \<^verbatim>\<open>nanosleep\<close> after a mode or speed switch.\<close>

definition settle :: "gpsmon \<Rightarrow> gpsmon" where
  "settle s = emit (Nanosleep 0 50000000) (emit Tcdrain s)"

text \<open>
  The descriptor a reconfiguration verb uses: \<^verbatim>\<open>fallback\<close> when it is set and has the
  method, and the session's device type otherwise.
\<close>

definition choose_switcher ::
  "(gps_type_t \<Rightarrow> bool) \<Rightarrow> gps_type_t \<Rightarrow> gpsmon \<Rightarrow> gps_type_t" where
  "choose_switcher has_method devtype s =
     (case fallback s of
        None \<Rightarrow> devtype
      | Some fb \<Rightarrow> if has_method fb then fb else devtype)"

definition monitor_control_send :: "char list \<Rightarrow> gpsmon \<Rightarrow> stop + (bool \<times> gpsmon)" where
  "monitor_control_send buf s =
     (if \<not> serial s then Inr (False, s)
      else
        (case device_type s of
           None \<Rightarrow> Inl (Fault NullPointer)
         | Some devtype \<Rightarrow>
             (case control_send devtype of
                None \<Rightarrow> Inl (Fault NullPointer)
              | Some f \<Rightarrow>
                  Inr (f buf \<noteq> - 1,
                       (emit (Control_send (type_name devtype) buf) (s\<lparr>readonly := False\<rparr>))
                         \<lparr>readonly := True\<rparr>))))"

definition monitor_raw_send :: "extern \<Rightarrow> char list \<Rightarrow> gpsmon \<Rightarrow> bool \<times> gpsmon" where
  "monitor_raw_send E buf s =
     (0 < gpsd_write E buf \<and> gpsd_write E buf = int (length buf), emit (Gpsd_write buf) s)"

subsection \<open>The verbs\<close>

text \<open>
  Each verb is the body of its \<^verbatim>\<open>case\<close> in \<^verbatim>\<open>do_command\<close>, up to the \<^verbatim>\<open>break\<close>; the
  result is the state at the \<^verbatim>\<open>break\<close>. \<open>arg\<close> is the offset of \<^verbatim>\<open>arg\<close> in the line.
\<close>

definition cmd_c :: "string \<Rightarrow> nat \<Rightarrow> gpsmon \<Rightarrow> stop + gpsmon" where
  "cmd_c line arg s =
     (case device_type s of
        None \<Rightarrow> Inr (complain ''No device defined yet'' [] s)
      | Some devtype \<Rightarrow>
          if \<not> serial s then Inr (complain ''Only available in low-level mode.'' [] s)
          else fault_in (cstr_at line arg) (\<lambda>rate.
            let switcher = choose_switcher (\<lambda>d. rate_switcher d \<noteq> None) devtype s in
            (case rate_switcher switcher of
               Some f \<Rightarrow>
                 (let s1 = emit (Rate_switcher (type_name switcher) rate) (s\<lparr>readonly := False\<rparr>);
                      s2 = (if f rate then announce_log ''[Rate switcher called.]'' [] s1
                            else complain ''Rate not supported.'' [] s1)
                  in Inr (s2\<lparr>readonly := True\<rparr>))
             | None \<Rightarrow>
                 Inr (complain ''Device type %s has no rate switcher''
                        [ArgS (type_name switcher)] s))))"

definition cmd_i :: "string \<Rightarrow> gpsmon \<Rightarrow> stop + gpsmon" where
  "cmd_i line s =
     (case device_type s of
        None \<Rightarrow> Inr (complain ''No GPS type detected.'' [] s)
      | Some devtype \<Rightarrow>
          if \<not> serial s then Inr (complain ''Only available in low-level mode.'' [] s)
          else
            fault_in (if no_01 line then Inr (\<not> readonly s)
                      else (case atoi (drop 1 line) of Inl f \<Rightarrow> Inl f | Inr v \<Rightarrow> Inr (v = 0)))
              (\<lambda>ro.
                 let s1 = announce_log ''[probing %sabled]''
                            [ArgS (if ro then ''dis'' else ''en'')] (s\<lparr>readonly := ro\<rparr>)
                 in Inr (if \<not> ro then s1\<lparr>lexer_counter := 0\<rparr> else s1)))"

definition cmd_n :: "extern \<Rightarrow> string \<Rightarrow> gpsmon \<Rightarrow> stop + gpsmon" where
  "cmd_n E line s =
     fault_in (if no_01 line then Inr (if TEXTUAL_PACKET_TYPE E (lexer_type s) then 1 else 0)
               else (case atoi (drop 1 line) of Inl f \<Rightarrow> Inl f | Inr r \<Rightarrow> Inr (to_unsigned r)))
       (\<lambda>v.
          case device_type s of
            None \<Rightarrow> Inr (complain ''No device defined yet'' [] s)
          | Some devtype \<Rightarrow>
              if \<not> serial s then Inr (complain ''Only available in low-level mode.'' [] s)
              else
                (let switcher = choose_switcher (\<lambda>d. mode_switcher d \<noteq> None) devtype s in
                 case mode_switcher switcher of
                   Some f \<Rightarrow>
                     (let s1 = announce_log ''[Mode switcher to mode %d]'' [ArgI (to_int v)]
                                 (s\<lparr>readonly := False\<rparr>);
                          s2 = emit (Mode_switcher (type_name switcher) (to_int v)) s1;
                          s3 = settle (s2\<lparr>readonly := True\<rparr>)
                      in Inr (if v = 0 then s3\<lparr>fallback := Some switcher\<rparr> else s3))
                 | None \<Rightarrow>
                     Inr (complain ''Device type %s has no mode switcher''
                            [ArgS (type_name switcher)] s)))"

text \<open>
  The verb \<open>l\<close>. Its \<^verbatim>\<open>break\<close> is the body of the \<^verbatim>\<open>if\<close> that tests the result of
  \<^verbatim>\<open>fopen\<close>, so that a failed \<^verbatim>\<open>fopen\<close> goes on into the statements of the verb \<open>n\<close>.
\<close>

definition cmd_l :: "extern \<Rightarrow> string \<Rightarrow> gpsmon \<Rightarrow> stop + gpsmon" where
  "cmd_l E line s =
     (let s1 = (case logfile s of None \<Rightarrow> s | Some path \<Rightarrow> emit Fclose_logfile s);
          s2 = emit (Fopen_append (drop 1 line)) s1
      in if fopen_append E (drop 1 line) then Inr (s2\<lparr>logfile := Some (drop 1 line)\<rparr>)
         else cmd_n E line (s2\<lparr>logfile := None\<rparr>))"

text \<open>
  The verb \<open>s\<close>. \<open>a\<close> is the string at \<^verbatim>\<open>arg\<close> and \<open>p\<close> the offset of its first colon;
  \<^verbatim>\<open>*++modespec\<close> reads the three characters after it in turn.
\<close>

definition speed_switch ::
  "gps_type_t \<Rightarrow> string \<Rightarrow> char \<Rightarrow> nat \<Rightarrow> gpsmon \<Rightarrow> stop + gpsmon" where
  "speed_switch switcher a parity stopbits s =
     fault_in (atoi a) (\<lambda>r.
       let speed = to_unsigned r in
       case speed_switcher switcher of
         Some f \<Rightarrow>
           (let s1 = emit (Speed_switcher (type_name switcher) speed parity (to_int stopbits))
                       (s\<lparr>readonly := False\<rparr>);
                s2 = (if f speed parity (to_int stopbits)
                      then emit (Gpsd_set_speed speed parity stopbits)
                             (settle (announce_log ''[Speed switcher called.]'' [] s1))
                      else complain ''Speed/mode combination not supported.'' [] s1)
            in Inr (s2\<lparr>readonly := True\<rparr>))
       | None \<Rightarrow>
           Inr (complain ''Device type %s has no speed switcher''
                  [ArgS (type_name switcher)] s))"

definition cmd_s :: "string \<Rightarrow> nat \<Rightarrow> gpsmon \<Rightarrow> stop + gpsmon" where
  "cmd_s line arg s =
     (case device_type s of
        None \<Rightarrow> Inr (complain ''No device defined yet'' [] s)
      | Some devtype \<Rightarrow>
          if \<not> serial s then Inr (complain ''Only available in low-level mode.'' [] s)
          else fault_in (cstr_at line arg) (\<lambda>a.
            let switcher = choose_switcher (\<lambda>d. speed_switcher d \<noteq> None) devtype s in
            case strchr_index a (CHR '':'') of
              None \<Rightarrow> speed_switch switcher a (dev_parity s) (dev_stopbits s) s
            | Some p \<Rightarrow>
                fault_in (cget a (p + 1)) (\<lambda>wordlen.
                  if \<not> strchr_found ''78'' wordlen
                  then Inr (complain ''No support for that word length.'' [] s)
                  else fault_in (cget a (p + 2)) (\<lambda>parity.
                    if \<not> strchr_found ''NOE'' parity
                    then Inr (complain (''What parity is '' @ [CHR 0x27] @ ''%c'' @ [CHR 0x27] @ ''?.'')
                                [ArgC parity] s)
                    else fault_in (cget a (p + 3)) (\<lambda>stopchar.
                      if \<not> strchr_found ''12'' stopchar
                      then Inr (complain ''Stop bits must be 1 or 2.'' [] s)
                      else speed_switch switcher a parity
                             (((of_char stopchar :: nat) + 2 ^ 32 - 48) mod 2 ^ 32) s)))))"

definition cmd_t :: "extern \<Rightarrow> string \<Rightarrow> nat \<Rightarrow> gpsmon \<Rightarrow> stop + gpsmon" where
  "cmd_t E line arg s =
     (if \<not> serial s then Inr (complain ''Only available in low-level mode.'' [] s)
      else fault_in (cstr_at line arg) (\<lambda>a.
        if 0 < length a then
          (let matches = filter (\<lambda>dp. strstr_found (type_name dp) a) (gpsd_drivers E) in
           if length matches = 0
           then Inr (complain (''No driver type matches '' @ [CHR 0x27] @ ''%s'' @ [CHR 0x27] @ ''.'')
                       [ArgS a] s)
           else if length matches = 1 then
             (case switch_type E (last matches) s of
                (True, s1) \<Rightarrow> Inr (emit (Gpsd_switch_driver (type_name (last matches))) s1)
              | (False, s1) \<Rightarrow> Inr s1)
           else Inr (complain (''Multiple driver type names match '' @ [CHR 0x27] @ ''%s''
                       @ [CHR 0x27] @ ''.'') [ArgS a] s))
        else Inr s))"

definition cmd_x :: "extern \<Rightarrow> string \<Rightarrow> nat \<Rightarrow> gpsmon \<Rightarrow> stop + gpsmon" where
  "cmd_x E line arg s =
     (case device_type s of
        None \<Rightarrow> Inr (complain ''No device defined yet'' [] s)
      | Some devtype \<Rightarrow>
          if \<not> serial s then Inr (complain ''Only available in low-level mode.'' [] s)
          else fault_in (cstr_at line arg) (\<lambda>a.
            case gpsd_hexpack E a of (st, buf) \<Rightarrow>
              if st < 0 then Inr (complain ''Invalid hex string (error %d)'' [ArgI st] s)
              else if control_send devtype = None
              then Inr (complain ''Device type %s has no control-send method.''
                          [ArgS (type_name devtype)] s)
              else
                (case monitor_control_send (take (nat st) buf) s of
                   Inl e \<Rightarrow> Inl e
                 | Inr (ok, s1) \<Rightarrow>
                     Inr (if \<not> ok then complain ''Control send failed.'' [] s1 else s1))))"

definition cmd_X :: "extern \<Rightarrow> string \<Rightarrow> nat \<Rightarrow> gpsmon \<Rightarrow> stop + gpsmon" where
  "cmd_X E line arg s =
     (if \<not> serial s then Inr (complain ''Only available in low-level mode.'' [] s)
      else fault_in (cstr_at line arg) (\<lambda>a.
        case gpsd_hexpack E a of (len, buf) \<Rightarrow>
          if len < 0
          then Inr (complain ''Invalid hex string (error %lu)'' [ArgI (len mod 2 ^ 64)] s)
          else
            (case monitor_raw_send E (take (nat len) buf) s of
               (ok, s1) \<Rightarrow> Inr (if \<not> ok then complain ''Raw send failed.'' [] s1 else s1))))"

subsection \<open>do_command\<close>

text \<open>
  \<^verbatim>\<open>do_command(line)\<close>: the result is \<open>False\<close> for the verb \<open>q\<close> and \<open>True\<close> (continue
  accepting commands) after every other verb.
\<close>

definition do_command :: "extern \<Rightarrow> string \<Rightarrow> gpsmon \<Rightarrow> stop + (bool \<times> gpsmon)" where
  "do_command E line s =
     fault_in (arg_offset line) (\<lambda>arg.
       fault_in (cget line 0) (\<lambda>verb.
         if verb = CHR ''q'' then Inr (False, s)
         else
           (case (if verb = CHR ''c'' then cmd_c line arg s
                  else if verb = CHR ''i'' then cmd_i line s
                  else if verb = CHR ''l'' then cmd_l E line s
                  else if verb = CHR ''n'' then cmd_n E line s
                  else if verb = CHR ''s'' then cmd_s line arg s
                  else if verb = CHR ''t'' then cmd_t E line arg s
                  else if verb = CHR ''x'' then cmd_x E line arg s
                  else if verb = CHR ''X'' then cmd_X E line arg s
                  else Inr (complain (''Unknown command '' @ [CHR 0x27] @ ''%c'' @ [CHR 0x27])
                              [ArgC verb] s)) of
              Inl e \<Rightarrow> Inl e
            | Inr s1 \<Rightarrow> Inr (True, s1))))"

section \<open>The per-packet hook\<close>









definition TOFF_PREFIX :: string where
  "TOFF_PREFIX = ''{'' @ [CHR 0x22] @ ''class'' @ [CHR 0x22] @ '':'' @ [CHR 0x22] @ ''TOFF''
                   @ [CHR 0x22] @ '',''"






section \<open>The shutdown path\<close>

text \<open>The \<^verbatim>\<open>switch (bailout)\<close> of \<^verbatim>\<open>main\<close>.\<close>

definition explanation :: "int \<Rightarrow> string option" where
  "explanation bailout =
     (if bailout = TERM_SELECT_FAILED then Some (''I/O wait on device failed'' @ [CHR 0x0A])
      else if bailout = TERM_DRIVER_SWITCH then Some (''Driver type switch failed'' @ [CHR 0x0A])
      else if bailout = TERM_EMPTY_READ then Some (''Device went offline'' @ [CHR 0x0A])
      else if bailout = TERM_READ_ERROR then Some (''Read error from device'' @ [CHR 0x0A])
      else if bailout = TERM_SIGNAL \<or> bailout = TERM_QUIT then None
      else Some (''Unknown error, should never happen.'' @ [CHR 0x0A]))"

definition EXIT_SUCCESS :: int where
  "EXIT_SUCCESS = 0"

text \<open>
  \<^verbatim>\<open>main\<close> from the label \<^verbatim>\<open>quit\<close> on, where every \<^verbatim>\<open>longjmp(terminate, ...)\<close> arrives with
  its code in \<^verbatim>\<open>bailout\<close>. The result is the state with the events and the exit status.
\<close>

definition main_quit :: "int \<Rightarrow> gpsmon \<Rightarrow> gpsmon \<times> int" where
  "main_quit bailout s =
     (let s1 = (if serial s then emit Pps_thread_deactivate s else s);
          s2 = emit Gpsd_close s1;
          s3 = (case logfile s2 of None \<Rightarrow> s2 | Some path \<Rightarrow> emit Fclose_logfile s2);
          s4 = (if curses_active s3 then s3 else emit Tcsetattr_cooked s3);
          s5 = (case explanation bailout of None \<Rightarrow> s4 | Some text \<Rightarrow> emit (Stderr_fputs text) s4)
      in (emit (Exit EXIT_SUCCESS) s5, EXIT_SUCCESS))"

text \<open>The messages written with \<^verbatim>\<open>fputs\<close> to the standard error stream, in order.\<close>

definition stderr_messages :: "event list \<Rightarrow> string list" where
  "stderr_messages es = concat (map (\<lambda>e. case e of Stderr_fputs text \<Rightarrow> [text] | _ \<Rightarrow> []) es)"

section \<open>The update hook of the NMEA monitor\<close>

text \<open>
  A satellite of the sky view, with the members \<^verbatim>\<open>nmea_update\<close> and \<^verbatim>\<open>sat_cmp\<close> read.
  The members of type \<^verbatim>\<open>double\<close> are only passed on to \<^verbatim>\<open>printf\<close>; their type is the
  parameter \<open>'d\<close>.
\<close>

record 'd satellite_t =
  ss :: 'd
  used :: bool
  PRN :: int
  elevation :: 'd
  azimuth :: 'd
  gnssid :: int
  svid :: int
  sigid :: int
  health :: int

text \<open>
  The call \<^verbatim>\<open>printf("%.2s%3d%c %3d %3d %2d %2.0f %c%c", ...)\<close> for one satellite, with its
  arguments: system name, \<^verbatim>\<open>svid\<close>, signal, \<^verbatim>\<open>PRN\<close>, azimuth and elevation (before their
  conversion to \<^verbatim>\<open>int\<close>), signal strength, health mark and use mark.
\<close>

datatype 'd nmea_event = Printf_satellite string int char int 'd 'd 'd char char

text \<open>
  The static variables of \<^verbatim>\<open>monitor_nmea0183.c\<close> (\<open>sentences\<close> is the array of 132 bytes
  as it stands in memory) and the members of \<^verbatim>\<open>session\<close> that \<^verbatim>\<open>nmea_update\<close> reads. An
  entry of \<open>field\<close> is \<open>None\<close> where the pointer is \<^verbatim>\<open>NULL\<close>.
\<close>

record 'd nmea =
  sentences :: "char list"
  last_tick :: timespec_t
  tick_interval :: timespec_t
  lexer_outbuffer :: "char list"
  field :: "string option list option"
  satellites_visible :: int
  skyview :: "'d satellite_t list"
  shown :: "'d nmea_event list"

text \<open>
  What \<^verbatim>\<open>nmea_update\<close> takes from outside the sources: the time \<^verbatim>\<open>clock_gettime\<close> stores,
  the macros of \<^verbatim>\<open>timespec.h\<close>, the constants of \<^verbatim>\<open>gps.h\<close>, and the order in which
  \<^verbatim>\<open>qsort\<close> leaves an array for a comparison function.
\<close>

record 'd nmea_extern =
  clock_gettime :: timespec_t
  TS_SUB_of :: "timespec_t \<Rightarrow> timespec_t \<Rightarrow> timespec_t"
  TS_GZ :: "timespec_t \<Rightarrow> bool"
  TS_GT :: "timespec_t \<Rightarrow> timespec_t \<Rightarrow> bool"
  qsort :: "('d satellite_t \<Rightarrow> 'd satellite_t \<Rightarrow> int) \<Rightarrow> 'd satellite_t list \<Rightarrow> 'd satellite_t list"
  GNSSID_GPS :: int
  GNSSID_SBAS :: int
  GNSSID_GAL :: int
  GNSSID_BD :: int
  GNSSID_IMES :: int
  GNSSID_QZSS :: int
  GNSSID_GLO :: int
  GNSSID_IRNSS :: int
  SAT_HEALTH_BAD :: int

definition SENTENCES_SIZE :: nat where
  "SENTENCES_SIZE = 132"

text \<open>\<^verbatim>\<open>MAXSATS\<close> is \<open>HEIGHT_3 + HEIGHT_4 - 3\<close>.\<close>

definition MAXSATS :: int where
  "MAXSATS = 9 + 6 - 3"

text \<open>
  \<^verbatim>\<open>strlcpy(m + off, src, siz)\<close> of the C library: it copies at most \<open>siz - 1\<close>
  characters and stores a terminator after them.
\<close>

definition strlcpy :: "char list \<Rightarrow> nat \<Rightarrow> string \<Rightarrow> nat \<Rightarrow> fault + char list" where
  "strlcpy m off src siz = (if siz = 0 then Inr m else pokes m off (take (siz - 1) src @ [NUL]))"

definition sat_cmp :: "'d satellite_t \<Rightarrow> 'd satellite_t \<Rightarrow> int" where
  "sat_cmp p1 p2 =
     (let ret = (if used p2 then 1 else 0) - (if used p1 then 1 else (0 :: int))
      in if ret \<noteq> 0 then ret else PRN p1 - PRN p2)"

text \<open>
  The statements of \<^verbatim>\<open>nmea_update\<close> that keep the list of sentence tags, after the
  assertion: \<open>xmax\<close> is the value of the local variable of that name, \<open>f0\<close> is
  \<^verbatim>\<open>fields[0]\<close>, and the array \<^verbatim>\<open>sentences\<close> is taken and given back.
\<close>

definition nmea_tag :: "int \<Rightarrow> string \<Rightarrow> char list \<Rightarrow> fault + char list" where
  "nmea_tag xmax f0 sent =
     (if strstr_found (c_string sent) f0 then
        (case c_strlen sent of Inl f \<Rightarrow> Inl f | Inr n \<Rightarrow> Inr sent)
      else
        (case c_strlen sent of
           Inl f \<Rightarrow> Inl f
         | Inr n \<Rightarrow>
             if xmax - 2 < - (2 ^ 31) then Inl SignedOverflow
             else if to_int (size_add n (length f0)) < xmax - 2 then
               (case poke sent n (CHR '' '') of
                  Inl f \<Rightarrow> Inl f
                | Inr m \<Rightarrow> strlcpy m (n + 1) f0 SENTENCES_SIZE)
             else if n < 3 then Inl WriteUnderflow
             else Inr (sent[n - 1 := CHR ''.'', n - 2 := CHR ''.'', n - 3 := CHR ''.''])))"

text \<open>The update of the tick interval.\<close>

definition nmea_tick :: "'d nmea_extern \<Rightarrow> 'd nmea \<Rightarrow> 'd nmea" where
  "nmea_tick X s =
     (let now = clock_gettime X;
          ts_diff = TS_SUB_of X now (last_tick s);
          s1 = (if TS_GZ X ts_diff \<and> TS_GT X ts_diff (tick_interval s)
                then s\<lparr>tick_interval := ts_diff\<rparr> else s)
      in s1\<lparr>last_tick := now\<rparr>)"

text \<open>The line printed for one satellite.\<close>

definition gnssid_name :: "'d nmea_extern \<Rightarrow> int \<Rightarrow> string" where
  "gnssid_name X g =
     (if g = GNSSID_GPS X then ''GP''
      else if g = GNSSID_SBAS X then ''SB''
      else if g = GNSSID_GAL X then ''GA''
      else if g = GNSSID_BD X then ''BD''
      else if g = GNSSID_IMES X then ''IM''
      else if g = GNSSID_QZSS X then ''QZ''
      else if g = GNSSID_GLO X then ''GL''
      else if g = GNSSID_IRNSS X then ''IR''
      else ''  '')"

definition satellite_line :: "'d nmea_extern \<Rightarrow> 'd satellite_t \<Rightarrow> 'd nmea_event" where
  "satellite_line X sat =
     Printf_satellite (gnssid_name X (gnssid sat)) (svid sat)
       (if 1 < sigid sat \<and> 8 > sigid sat then char_of (48 + sigid sat) else CHR '' '')
       (PRN sat) (azimuth sat) (elevation sat) (ss sat)
       (if SAT_HEALTH_BAD X = health sat then CHR ''u'' else CHR '' '')
       (if used sat then CHR ''Y'' else CHR ''N'')"

text \<open>
  The block for the last GSV sentence of a group: the sky view is sorted in place and
  its first \<open>nsats\<close> satellites are printed.
\<close>

definition nmea_satellites :: "'d nmea_extern \<Rightarrow> 'd nmea \<Rightarrow> fault + 'd nmea" where
  "nmea_satellites X s =
     (if satellites_visible s < 0 \<or> int (length (skyview s)) < satellites_visible s
      then Inl ReadOverrun
      else
        (let nsats = (if satellites_visible s < MAXSATS then satellites_visible s else MAXSATS);
             sorted = qsort X sat_cmp (take (nat (satellites_visible s)) (skyview s))
                        @ drop (nat (satellites_visible s)) (skyview s)
         in Inr (s\<lparr>skyview := sorted,
                    shown := shown s @ map (satellite_line X) (take (nat nsats) sorted)\<rparr>)))"

text \<open>\<^verbatim>\<open>fields[k]\<close> as a string, for \<^verbatim>\<open>strcmp\<close>; \<open>flds\<close> is \<^verbatim>\<open>fields\<close>.\<close>

definition field_string :: "string option list \<Rightarrow> nat \<Rightarrow> fault + string" where
  "field_string flds k =
     (if length flds \<le> k then Inl ReadOverrun
      else (case flds ! k of None \<Rightarrow> Inl NullPointer | Some f \<Rightarrow> Inr f))"

text \<open>
  The condition under which \<^verbatim>\<open>nmea_update\<close> does anything: the packet starts with a
  dollar sign, and \<^verbatim>\<open>fields\<close> and \<^verbatim>\<open>fields[0]\<close> are not \<^verbatim>\<open>NULL\<close>. The result is
  \<^verbatim>\<open>fields[0]\<close> and \<^verbatim>\<open>fields\<close>, or \<open>None\<close> when the condition is false.
\<close>

definition nmea_guard :: "'d nmea \<Rightarrow> fault + (string \<times> string option list) option" where
  "nmea_guard s =
     (case peek (lexer_outbuffer s) 0 of
        Inl f \<Rightarrow> Inl f
      | Inr c0 \<Rightarrow>
          if c0 \<noteq> CHR ''$'' then Inr None
          else
            (case field s of
               None \<Rightarrow> Inr None
             | Some flds \<Rightarrow>
                 (case flds of
                    [] \<Rightarrow> Inl ReadOverrun
                  | None # rest \<Rightarrow> Inr None
                  | Some f0 # rest \<Rightarrow> Inr (Some (f0, flds)))))"

text \<open>
  \<^verbatim>\<open>nmea_update\<close>. Its local variables \<^verbatim>\<open>ymax\<close> and \<^verbatim>\<open>xmax\<close> are declared and never
  assigned; the values they hold when they are read are the second and third argument.
  \<^verbatim>\<open>cooked_pvt\<close> and the blocks for RMC, GSA, GGA and GST sentences format into local
  buffers only and leave no trace.
\<close>

definition nmea_update :: "'d nmea_extern \<Rightarrow> int \<Rightarrow> int \<Rightarrow> 'd nmea \<Rightarrow> fault + 'd nmea" where
  "nmea_update X ymax xmax s =
     (case nmea_guard s of
        Inl f \<Rightarrow> Inl f
      | Inr None \<Rightarrow> Inr s
      | Inr (Some (f0, flds)) \<Rightarrow>
          if \<not> ymax > 0 then Inl AssertFailed
          else
            (case nmea_tag xmax f0 (sentences s) of
               Inl f \<Rightarrow> Inl f
             | Inr sent \<Rightarrow>
                 (let s1 = nmea_tick X (s\<lparr>sentences := sent\<rparr>) in
                  if 4 < length f0 \<and> drop 2 f0 = ''GSV'' then
                    (case field_string flds 1 of
                       Inl f \<Rightarrow> Inl f
                     | Inr f1 \<Rightarrow>
                         (case field_string flds 2 of
                            Inl f \<Rightarrow> Inl f
                          | Inr f2 \<Rightarrow>
                              if f1 = f2 then nmea_satellites X s1 else Inr s1))
                  else Inr s1)))"

section \<open>A sample of the external declarations\<close>

text \<open>
  Concrete values for the parameters, for evaluating the model at concrete inputs:
  numbers for the packet types and the sticky flag, a generic NMEA driver, the JSON
  passthrough driver, a sticky driver with all four methods, and library calls that
  succeed except for \<^verbatim>\<open>fopen\<close> and \<^verbatim>\<open>gpsd_hexpack\<close>.
\<close>

definition sample_nmea0183 :: gps_type_t where
  "sample_nmea0183 =
     \<lparr>type_name = ''NMEA0183'', flags = 0, mode_switcher = None, speed_switcher = None,
      rate_switcher = None, control_send = Some (\<lambda>b. int (length b))\<rparr>"

definition sample_json :: gps_type_t where
  "sample_json =
     \<lparr>type_name = ''JSON slave driver'', flags = 0, mode_switcher = None,
      speed_switcher = None, rate_switcher = None, control_send = None\<rparr>"

definition sample_sticky :: gps_type_t where
  "sample_sticky =
     \<lparr>type_name = ''Ashtech'', flags = 1, mode_switcher = Some (\<lambda>mode. ()),
      speed_switcher = Some (\<lambda>speed parity stopbits. True),
      rate_switcher = Some (\<lambda>rate. True), control_send = Some (\<lambda>b. int (length b))\<rparr>"

definition sample_td :: "int \<Rightarrow> int \<Rightarrow> timedelta_t" where
  "sample_td r c = \<lparr>real = \<lparr>tv_sec = r, tv_nsec = 0\<rparr>, clock = \<lparr>tv_sec = c, tv_nsec = 0\<rparr>\<rparr>"

definition sample_extern :: extern where
  "sample_extern =
     \<lparr>NMEA_PACKET = 1, BAD_PACKET = - 1, DRIVER_STICKY = 1,
      TEXTUAL_PACKET_TYPE = (\<lambda>n. 1 \<le> n \<and> n \<le> 3),
      driver_nmea0183 = sample_nmea0183, driver_json_passthrough = sample_json,
      gpsd_drivers = [sample_nmea0183, sample_sticky, sample_json],
      BUFSIZ = 8192,
      fopen_append = (\<lambda>path. False),
      gpsd_hexpack = (\<lambda>src. (- 1, [])),
      gpsd_write = (\<lambda>b. int (length b)),
      json_toff_read = (\<lambda>text. (0, sample_td 1700000000 1700000001)),
      json_pps_read = (\<lambda>text. (0, sample_td 1700000000 1700000001)),
      json_error_string = (\<lambda>status. ''error''),
      timespec_str = (\<lambda>ts. ''time''),
      TS_SUB = (\<lambda>a b. \<lparr>tv_sec = tv_sec a - tv_sec b, tv_nsec = tv_nsec a - tv_nsec b\<rparr>),
      fwrite_logfile = (\<lambda>b. length b),
      ntp_latch = (\<lambda>t td. (td, td))\<rparr>"

definition sample_state :: gpsmon where
  "sample_state =
     \<lparr>serial = True, readonly = True, curses_active = False, logfile = None,
      active = None, fallback = None, time_offset = sample_td 0 0, last_type = - 1,
      LINES = 24, COLS = 80, device_type = Some sample_sticky, lexer_type = 1,
      lexer_counter = 5, outbuffer = ''$GPGGA'' @ [NUL], outbuflen = 6,
      dev_parity = CHR ''N'', dev_stopbits = 1, toff = sample_td 0 0,
      pps_out = sample_td 0 0, ppsout_count = 0,
      newdata_time = \<lparr>tv_sec = 0, tv_nsec = 0\<rparr>, fix_in = sample_td 0 0, trace = []\<rparr>"

text \<open>What the hook's local array of \<open>BUFSIZ sample_extern\<close> bytes may hold on entry.\<close>

definition sample_buf :: "char list" where
  "sample_buf = replicate 8192 (CHR ''z'')"

text \<open>
  A session on a relayed stream that has just received a TOFF packet, with a fix time
  that is positive and newer than the reference fix.
\<close>

definition sample_toff_state :: gpsmon where
  "sample_toff_state =
     sample_state\<lparr>serial := False, outbuffer := TOFF_PREFIX @ ''}'' @ [NUL], outbuflen := 17,
                  newdata_time := \<lparr>tv_sec = 1700000005, tv_nsec = 0\<rparr>\<rparr>"

text \<open>
  The same for \<^verbatim>\<open>nmea_update\<close>, with \<^verbatim>\<open>double\<close> values standing as integers: an
  insertion sort for \<^verbatim>\<open>qsort\<close>, and a state in which the tag GGA has been seen and an RMC
  sentence arrives.
\<close>

fun sample_insert :: "('a \<Rightarrow> 'a \<Rightarrow> int) \<Rightarrow> 'a \<Rightarrow> 'a list \<Rightarrow> 'a list" where
  "sample_insert cmp x [] = [x]"
| "sample_insert cmp x (y # ys) =
     (if cmp x y \<le> 0 then x # y # ys else y # sample_insert cmp x ys)"

definition sample_nmea_extern :: "int nmea_extern" where
  "sample_nmea_extern =
     \<lparr>clock_gettime = \<lparr>tv_sec = 1700000010, tv_nsec = 0\<rparr>,
      TS_SUB_of = (\<lambda>a b. \<lparr>tv_sec = tv_sec a - tv_sec b, tv_nsec = tv_nsec a - tv_nsec b\<rparr>),
      TS_GZ = (\<lambda>ts. 0 < tv_sec ts \<or> 0 < tv_nsec ts),
      TS_GT = (\<lambda>a b. tv_sec a > tv_sec b \<or> (tv_sec a = tv_sec b \<and> tv_nsec a > tv_nsec b)),
      qsort = (\<lambda>cmp xs. foldr (sample_insert cmp) xs []),
      GNSSID_GPS = 0, GNSSID_SBAS = 1, GNSSID_GAL = 2, GNSSID_BD = 3, GNSSID_IMES = 4,
      GNSSID_QZSS = 5, GNSSID_GLO = 6, GNSSID_IRNSS = 7, SAT_HEALTH_BAD = 2\<rparr>"

definition sample_nmea :: "int nmea" where
  "sample_nmea =
     \<lparr>sentences = '' GGA'' @ replicate 128 NUL,
      last_tick = \<lparr>tv_sec = 1700000009, tv_nsec = 0\<rparr>,
      tick_interval = \<lparr>tv_sec = 0, tv_nsec = 0\<rparr>,
      lexer_outbuffer = ''$GPRMC,1'' @ [NUL],
      field = Some [Some ''GPRMC'', Some ''1''],
      satellites_visible = 0, skyview = [], shown = []\<rparr>"

section \<open>Properties\<close>

subsection \<open>Buffers\<close>

lemma takeWhile_upto_NUL:
  "NUL \<notin> set xs \<Longrightarrow> takeWhile (\<lambda>c. c \<noteq> NUL) (xs @ NUL # ys) = xs"
  by (induction xs) auto

lemma length_takeWhile_less_if:
  "x \<in> set b \<Longrightarrow> \<not> P x \<Longrightarrow> length (takeWhile P b) < length b"
  by (induction b) auto






lemma size_add_small: "a + b < 2 ^ 64 \<Longrightarrow> size_add a b = a + b"
  by (simp add: size_add_def SIZE_MOD_def)











lemmas buffer_eval = visibilize_def poke_def c_strlen_def size_add_def SIZE_MOD_def passes_verbatim_def peek_def isprint_def snprintf_def pokes_def esc_hex_def hex2_def hexdigit_def NUL_def



lemma isprint_not_NUL: "isprint c \<Longrightarrow> c \<noteq> NUL"
  by (auto simp: isprint_def NUL_def)

lemma size_sub_small:
  assumes "b \<le> a" and "a < 2 ^ 64"
  shows "size_sub a b = a - b"
proof -
  have b: "b mod 2 ^ 64 = b" using assms by simp
  have e: "a + 2 ^ 64 - b = (a - b) + 2 ^ 64" using assms(1) by simp
  have "size_sub a b = (a + 2 ^ 64 - b) mod 2 ^ 64"
    by (simp only: size_sub_def SIZE_MOD_def b)
  also have "\<dots> = (a - b) mod 2 ^ 64"
    by (simp only: e mod_add_self2)
  also have "\<dots> = a - b"
    using assms(2) by simp
  finally show ?thesis .
qed

lemma cond_hexdump_copy_printable:
  assumes "isprint c" and "\<forall>d\<in>set rest. isprint d"
    and "j + length rest + 2 \<le> length b" and "len2 = length b" and "len2 < 2 ^ 64"
  shows "\<exists>m. cond_hexdump_copy tx len len2 b i j (c # rest) = Inr m \<and> length m = length b
            \<and> take (j + length rest + 2) m = take j b @ c # rest @ [NUL]"
  using assms
proof (induction rest arbitrary: c b i j)
  case Nil
  have "j < size_sub len2 1"
    using Nil.prems(3,4,5) by (simp add: size_sub_small)
  then show ?case
    using Nil.prems by (simp add: poke_def take_Suc_conv_app_nth)
next
  case (Cons d rest)
  have j: "j < size_sub len2 1"
    using Cons.prems(3,4,5) by (simp add: size_sub_small)
  define b2 where "b2 = b[j := c, j + 1 := NUL]"
  have step: "cond_hexdump_copy tx len len2 b i j (c # d # rest)
                = cond_hexdump_copy tx len len2 b2 (i + 1) (j + 1) (d # rest)"
    using j Cons.prems(1,3) by (simp add: poke_def b2_def)
  have l2: "length b2 = length b" by (simp add: b2_def)
  from Cons.prems have "isprint d" "\<forall>e\<in>set rest. isprint e"
    "(j + 1) + length rest + 2 \<le> length b2" "len2 = length b2"
    by (simp_all add: l2)
  from Cons.IH [OF this Cons.prems(5)]
  obtain m where m: "cond_hexdump_copy tx len len2 b2 (i + 1) (j + 1) (d # rest) = Inr m"
    "length m = length b2" "take (j + 1 + length rest + 2) m = take (j + 1) b2 @ d # rest @ [NUL]"
    by blast
  have "take (j + 1) b2 = take j b @ [c]"
    using Cons.prems(3) by (simp add: b2_def take_Suc_conv_app_nth)
  with m step l2 show ?case by simp
qed

lemma c_string_of_prefix:
  assumes "take (Suc (length x)) m = x @ [NUL]" and "NUL \<notin> set x"
  shows "c_string m = x"
proof -
  have "m = (x @ [NUL]) @ drop (Suc (length x)) m"
    using assms(1) append_take_drop_id [of "Suc (length x)" m] by simp
  then have "c_string m = takeWhile (\<lambda>c. c \<noteq> NUL) (x @ NUL # drop (Suc (length x)) m)"
    by (simp add: c_string_def)
  also have "\<dots> = x"
    using assms(2) by (rule takeWhile_upto_NUL)
  finally show ?thesis .
qed

lemma cond_hexdump_printable:
  assumes "\<forall>c\<in>set x. isprint c" and "x \<noteq> []"
    and "length x < length b" and "length b < 2 ^ 64"
  shows "\<exists>m. cond_hexdump tx b (length b) (x @ tail) (length x) = Inr m
            \<and> take (Suc (length x)) m = x @ [NUL] \<and> c_string m = x"
proof -
  from assms(2) obtain c rest where x: "x = c # rest" by (cases x) auto
  have pr: "list_all (\<lambda>c. isprint c \<or> isspace c) x"
    using assms(1) by (simp add: list_all_iff)
  have run: "cond_hexdump tx b (length b) (x @ tail) (length x)
               = cond_hexdump_copy tx (length x) (length b) b 0 0 (c # rest)"
    using pr by (simp add: cond_hexdump_def x)
  have "isprint c" "\<forall>d\<in>set rest. isprint d" "0 + length rest + 2 \<le> length b"
    using assms(1,3) by (simp_all add: x)
  from cond_hexdump_copy_printable [OF this refl assms(4)]
  obtain m where m: "cond_hexdump_copy tx (length x) (length b) b 0 0 (c # rest) = Inr m"
    "take (0 + length rest + 2) m = take 0 b @ c # rest @ [NUL]"
    by blast
  have t: "take (Suc (length x)) m = x @ [NUL]"
    using m(2) by (simp add: x)
  have "NUL \<notin> set x"
    using assms(1) isprint_not_NUL by blast
  with t have "c_string m = x" by (rule c_string_of_prefix)
  with run m(1) t show ?thesis by simp
qed

text \<open>
  On a non-empty buffer of printable characters and a destination with room for them and
  the terminator, \<^verbatim>\<open>cond_hexdump\<close> leaves the input itself in the destination, so that
  rendering the rendered string again gives the same string, whatever the two destinations
  held before.
\<close>

theorem cond_hexdump_idempotent:
  assumes "\<forall>c\<in>set x. isprint c" and "x \<noteq> []"
    and "length x < length b1" and "length b1 < 2 ^ 64"
    and "length x < length b2" and "length b2 < 2 ^ 64"
  shows "\<exists>m1 m2. cond_hexdump tx b1 (length b1) x (length x) = Inr m1
           \<and> c_string m1 = x
           \<and> cond_hexdump tx b2 (length b2) m1 (length (c_string m1)) = Inr m2
           \<and> c_string m2 = c_string m1"
proof -
  from cond_hexdump_printable [OF assms(1,2,3,4), of tx "[]"]
  obtain m1 where m1: "cond_hexdump tx b1 (length b1) x (length x) = Inr m1"
    "take (Suc (length x)) m1 = x @ [NUL]" "c_string m1 = x"
    by auto
  have "m1 = x @ (NUL # drop (Suc (length x)) m1)"
    using m1(2) append_take_drop_id [of "Suc (length x)" m1] by simp
  with cond_hexdump_printable [OF assms(1,2,5,6), of tx "NUL # drop (Suc (length x)) m1"]
  obtain m2 where "cond_hexdump tx b2 (length b2) m1 (length x) = Inr m2" "c_string m2 = x"
    by auto
  with m1 show ?thesis by simp
qed

theorem cond_hexdump_idempotent_witness:
  "(\<forall>c\<in>set ''$GP''. isprint c) \<and> ''$GP'' \<noteq> [] \<and> length ''$GP'' < length ''zzzzzz''
   \<and> length ''zzzzzz'' < (2::nat) ^ 64
   \<and> (\<exists>m1 m2. cond_hexdump True ''zzzzzz'' (length ''zzzzzz'') ''$GP'' (length ''$GP'') = Inr m1
           \<and> c_string m1 = ''$GP''
           \<and> cond_hexdump True ''zzzzzz'' (length ''zzzzzz'') m1 (length (c_string m1)) = Inr m2
           \<and> c_string m2 = c_string m1)"
  using cond_hexdump_idempotent [of "''$GP''" "''zzzzzz''" "''zzzzzz''" True]
  by (simp add: isprint_def)

text \<open>
  Claim C8 at the empty buffer. With \<open>len = 0\<close> neither loop of the printable branch runs
  and nothing is stored, not even the terminator that the hex dump branch and
  \<^verbatim>\<open>visibilize\<close> store first: the destination keeps the string it held before, here a
  single tab, and rendering that string gives four other characters.
\<close>

theorem cond_hexdump_empty_input:
  "cond_hexdump False [CHR 0x09, NUL, CHR ''z'', CHR ''z'', CHR ''z'', CHR ''z''] 6 [] 0
     = Inr [CHR 0x09, NUL, CHR ''z'', CHR ''z'', CHR ''z'', CHR ''z'']
   \<and> c_string [CHR 0x09, NUL, CHR ''z'', CHR ''z'', CHR ''z'', CHR ''z''] = [CHR 0x09]
   \<and> cond_hexdump False [NUL, CHR ''z'', CHR ''z'', CHR ''z'', CHR ''z'', CHR ''z''] 6
        [CHR 0x09, NUL, CHR ''z'', CHR ''z'', CHR ''z'', CHR ''z''] 1
     = Inr [CHR 0x5C, CHR ''x'', CHR ''0'', CHR ''9'', NUL, CHR ''z'']
   \<and> c_string [CHR 0x5C, CHR ''x'', CHR ''0'', CHR ''9'', NUL, CHR ''z''] = [CHR 0x5C, CHR ''x'', CHR ''0'', CHR ''9'']"
  by (simp add: cond_hexdump_def c_string_def isspace_def buffer_eval size_sub_def)

subsection \<open>cond_hexdump stays inside its destination\<close>









subsection \<open>Switching monitor objects\<close>

lemmas sample_defs = sample_extern_def sample_state_def sample_nmea0183_def sample_json_def
  sample_sticky_def sample_td_def monitor_objects_def nmea_mmt_def json_mmt_def ashtech_mmt_def
  HEIGHT_def WIDTH_def sample_buf_def sample_toff_state_def

text \<open>
  Claim C1, as the code has it. When \<^verbatim>\<open>switch_type\<close> completes a switch (an object matches
  the descriptor and the screen is large enough for it), it calls the \<^verbatim>\<open>wrap\<close> hook of the
  outgoing object, when there is an active object and it has one, then makes the matching
  object the active one and clears the screen, and returns \<open>True\<close>. It calls no other
  hook: the \<^verbatim>\<open>initialize\<close> hook of the incoming object is not called.
\<close>

theorem switch_type_completed:
  assumes "find_trial (monitor_objects E) (type_name devtype) = Some newobject"
    and "\<not> (LINES s < min_y newobject + 1 \<or> COLS s < min_x newobject)"
  shows "switch_type E devtype s =
           (True, s\<lparr>active := Some newobject,
                    trace := trace s
                      @ (case active s of
                           None \<Rightarrow> []
                         | Some old \<Rightarrow> (case wrap old of None \<Rightarrow> [] | Some h \<Rightarrow> [Invoke h]))
                      @ [Clearok, Clear]\<rparr>)"
  using assms
  by (simp add: switch_type_def switch_type_in_def emit_def split: option.splits)

theorem switch_type_completed_witness:
  "find_trial (monitor_objects sample_extern) (type_name sample_nmea0183)
     = Some (nmea_mmt sample_extern)
   \<and> \<not> (LINES sample_state < min_y (nmea_mmt sample_extern) + 1
         \<or> COLS sample_state < min_x (nmea_mmt sample_extern))
   \<and> switch_type sample_extern sample_nmea0183
        (sample_state\<lparr>active := Some (nmea_mmt sample_extern)\<rparr>)
      = (True, sample_state\<lparr>active := Some (nmea_mmt sample_extern),
                 trace := [Invoke Nmea_wrap, Clearok, Clear]\<rparr>)"
  using switch_type_completed [of sample_extern sample_nmea0183 "nmea_mmt sample_extern"
      "sample_state\<lparr>active := Some (nmea_mmt sample_extern)\<rparr>"]
  by (simp add: sample_defs)

text \<open>
  Claim C1 as stated fails: a completed switch to the NMEA object, whose \<^verbatim>\<open>initialize\<close>
  hook is \<^verbatim>\<open>nmea_initialize\<close>, clears the screen and calls nothing.
\<close>

theorem switch_type_no_initialize:
  "initialize (nmea_mmt sample_extern) = Some Nmea_initialize
   \<and> fst (switch_type sample_extern sample_nmea0183 sample_state) = True
   \<and> active (snd (switch_type sample_extern sample_nmea0183 sample_state))
       = Some (nmea_mmt sample_extern)
   \<and> trace (snd (switch_type sample_extern sample_nmea0183 sample_state)) = [Clearok, Clear]
   \<and> Invoke Nmea_initialize
       \<notin> set (trace (snd (switch_type sample_extern sample_nmea0183 sample_state)))"
  by (simp add: switch_type_def switch_type_in_def emit_def sample_defs)

text \<open>
  Claim C2, as the code has it. When the packet type differs from the last one seen, the
  lookup is made with the generic NMEA descriptor \<^verbatim>\<open>driver_nmea0183\<close> if the new type is
  \<^verbatim>\<open>NMEA_PACKET\<close> and the session's descriptor has the sticky flag, and with the session's
  descriptor otherwise. Without a matching object the function leaves by
  \<^verbatim>\<open>longjmp(terminate, TERM_DRIVER_SWITCH)\<close>; with one, the active object becomes the
  first match, or stays what it was when the screen is too small for the match.
\<close>

theorem select_packet_monitor_target:
  assumes "lexer_type s \<noteq> last_type s" and "device_type s = Some devtype"
  shows "case find_trial (monitor_objects E)
                (type_name (if NMEA_PACKET E = lexer_type s
                                 \<and> 0 \<noteq> (flags devtype AND DRIVER_STICKY E)
                            then driver_nmea0183 E else devtype)) of
           None \<Rightarrow>
             (\<exists>s'. select_packet_monitor E s = Inl (Terminate TERM_DRIVER_SWITCH s')
                  \<and> active s' = active s)
         | Some newobject \<Rightarrow>
             (\<exists>s'. select_packet_monitor E s = Inr s'
                  \<and> last_type s' = lexer_type s
                  \<and> active s' = (if LINES s < min_y newobject + 1 \<or> COLS s < min_x newobject
                                 then active s else Some newobject))"
  using assms
  by (auto simp: select_packet_monitor_def select_packet_monitor_in_def active_type_def
      switch_type_in_def emit_def Let_def split: option.splits)

theorem select_packet_monitor_target_witness:
  "lexer_type sample_state \<noteq> last_type sample_state
   \<and> device_type sample_state = Some sample_sticky
   \<and> NMEA_PACKET sample_extern = lexer_type sample_state
   \<and> 0 \<noteq> (flags sample_sticky AND DRIVER_STICKY sample_extern)
   \<and> find_trial (monitor_objects sample_extern) (type_name (driver_nmea0183 sample_extern))
       = Some (nmea_mmt sample_extern)
   \<and> (\<exists>s'. select_packet_monitor sample_extern sample_state = Inr s'
          \<and> last_type s' = lexer_type sample_state
          \<and> active s' = Some (nmea_mmt sample_extern))"
  using select_packet_monitor_target [of sample_state sample_sticky sample_extern]
  by (simp add: sample_defs)

text \<open>
  Claim C2 as stated fails: for a sticky descriptor and an NMEA packet the active object
  becomes the generic NMEA one, also when the list holds an object for the sticky
  descriptor itself.
\<close>

theorem select_packet_monitor_sticky_counterexample:
  "0 \<noteq> (flags sample_sticky AND DRIVER_STICKY sample_extern)
   \<and> device_type sample_state = Some sample_sticky
   \<and> lexer_type sample_state = NMEA_PACKET sample_extern
   \<and> lexer_type sample_state \<noteq> last_type sample_state
   \<and> find_trial (monitor_objects sample_extern @ [ashtech_mmt sample_sticky])
        (type_name sample_sticky) = Some (ashtech_mmt sample_sticky)
   \<and> map_sum id (map_option (type_name \<circ> driver) \<circ> active)
        (select_packet_monitor_in (monitor_objects sample_extern @ [ashtech_mmt sample_sticky])
           sample_extern sample_state) = Inr (Some ''NMEA0183'')
   \<and> map_sum id (map_option (type_name \<circ> driver) \<circ> active)
        (select_packet_monitor sample_extern sample_state) = Inr (Some ''NMEA0183'')
   \<and> type_name sample_sticky \<noteq> ''NMEA0183''"
  by (simp add: select_packet_monitor_def select_packet_monitor_in_def active_type_def
      switch_type_in_def emit_def sample_defs)

subsection \<open>Commands\<close>

lemmas command_eval = do_command_def arg_offset_def skip_loop.simps cget_def cstr_at_def isspace_def isdigit_def
  atoi_def to_unsigned_def to_int_def strchr_found_def strchr_index_def no_01_def
  complain_def announce_log_def settle_def choose_switcher_def emit_def NUL_def
  cmd_c_def cmd_i_def cmd_l_def cmd_n_def cmd_s_def cmd_t_def cmd_x_def cmd_X_def
  speed_switch_def monitor_control_send_def monitor_raw_send_def

text \<open>
  Claim C3 at its own input. After the verb and one blank the first statement of
  \<^verbatim>\<open>do_command\<close> leaves \<^verbatim>\<open>arg\<close> at \<^verbatim>\<open>line + 3\<close> (the loop stops at \<^verbatim>\<open>line + 2\<close> and the
  statement after it advances once more): the speed switcher is called with 800, parity N
  and one stop bit. The line with word length 9 is refused before any call.
\<close>

theorem do_command_s_4800:
  "do_command sample_extern ''s 4800:8N1'' sample_state
     = Inr (True, sample_state\<lparr>trace :=
         [Speed_switcher ''Ashtech'' 800 (CHR ''N'') 1, Tcdrain, Nanosleep 0 50000000,
          Gpsd_set_speed 800 (CHR ''N'') 1]\<rparr>)
   \<and> do_command sample_extern ''s 4800:9N1'' sample_state
     = Inr (True, sample_state\<lparr>trace := [Complain ''No support for that word length.'' []]\<rparr>)"
  by (simp add: command_eval sample_defs)

text \<open>
  Claim C5 at a path that cannot be opened: control goes on into the verb \<open>n\<close>, and the
  mode switcher of the device is called.
\<close>

theorem do_command_l_open_fails:
  "fopen_append sample_extern ''/nonexistent/log'' = False
   \<and> do_command sample_extern ''l/nonexistent/log'' sample_state
     = Inr (True, sample_state\<lparr>trace :=
         [Fopen_append ''/nonexistent/log'', Mode_switcher ''Ashtech'' 1, Tcdrain,
          Nanosleep 0 50000000]\<rparr>)"
  by (simp add: command_eval sample_defs)

text \<open>
  Claim C6 as stated fails: \<open>i 0\<close> disables probing and leaves the counter at 5.
\<close>

theorem do_command_i_counterexample:
  "map_sum id (readonly \<circ> snd) (do_command sample_extern ''i 0'' sample_state) = Inr True
   \<and> map_sum id (lexer_counter \<circ> snd) (do_command sample_extern ''i 0'' sample_state) = Inr 5
   \<and> lexer_counter sample_state = 5"
  by (simp add: command_eval sample_defs)

text \<open>
  Claim C6, as the code has it. With a device known and a low-level session, the verb
  \<open>i\<close> toggles \<^verbatim>\<open>context.readonly\<close> when the line holds neither 0 nor 1, and otherwise
  sets it to whether \<^verbatim>\<open>atoi(line + 1)\<close> is 0; probing is enabled when it is false. The
  counter \<^verbatim>\<open>session.lexer.counter\<close> is reset to 0 when probing ends up enabled, and keeps
  its value when probing ends up disabled.
\<close>

theorem do_command_i_probing:
  assumes "device_type s = Some devtype" and "serial s"
    and "line \<noteq> []" and "hd line = CHR ''i''"
    and "arg_offset line = Inr arg"
    and "\<not> no_01 line \<longrightarrow> atoi (drop 1 line) = Inr v"
  shows "\<exists>s'. do_command E line s = Inr (True, s')
            \<and> readonly s' = (if no_01 line then \<not> readonly s else v = 0)
            \<and> lexer_counter s' = (if readonly s' then lexer_counter s else 0)"
proof -
  from assms(3,4) obtain rest where line: "line = CHR ''i'' # rest"
    by (cases line) auto
  have verb: "cget line 0 = Inr (CHR ''i'')"
    by (simp add: cget_def line)
  define ro where "ro = (if no_01 line then \<not> readonly s else v = 0)"
  have cmd: "cmd_i line s =
     Inr (let s1 = announce_log ''[probing %sabled]'' [ArgS (if ro then ''dis'' else ''en'')]
                     (s\<lparr>readonly := ro\<rparr>)
          in if \<not> ro then s1\<lparr>lexer_counter := 0\<rparr> else s1)"
    using assms(1,2,6) by (auto simp: cmd_i_def ro_def)
  have "do_command E line s =
     Inr (True, let s1 = announce_log ''[probing %sabled]'' [ArgS (if ro then ''dis'' else ''en'')]
                     (s\<lparr>readonly := ro\<rparr>)
          in if \<not> ro then s1\<lparr>lexer_counter := 0\<rparr> else s1)"
    by (simp add: do_command_def assms(5) verb cmd)
  then show ?thesis
    by (cases "logfile s") (auto simp: ro_def announce_log_def emit_def Let_def)
qed

theorem do_command_i_probing_witness:
  "device_type sample_state = Some sample_sticky \<and> serial sample_state
   \<and> ''i 1'' \<noteq> [] \<and> hd ''i 1'' = CHR ''i'' \<and> arg_offset ''i 1'' = Inr 3
   \<and> \<not> no_01 ''i 1'' \<and> atoi (drop 1 ''i 1'') = Inr 1
   \<and> (\<exists>s'. do_command sample_extern ''i 1'' sample_state = Inr (True, s')
          \<and> readonly s' = False \<and> lexer_counter s' = 0)"
  using do_command_i_probing [of sample_state sample_sticky "''i 1''" 3 1 sample_extern]
  by (simp add: command_eval sample_defs)

subsection \<open>The per-packet hook and the shutdown path\<close>
















text \<open>
  Claim C7. The shutdown path writes to the standard error stream the one message of the
  termination code: a message of its own for each of select-failed, driver-switch-failed,
  empty-read and read-error, none for signal and quit, and the unknown-error message for
  every other code; the five messages differ from each other, as the six codes do. The
  exit status is \<^verbatim>\<open>EXIT_SUCCESS\<close> and \<^verbatim>\<open>exit\<close> is the last thing done.
\<close>

theorem main_quit_explains:
  "stderr_messages (trace (fst (main_quit bailout s))) = stderr_messages (trace s)
     @ (if bailout = TERM_SELECT_FAILED then [''I/O wait on device failed'' @ [CHR 0x0A]]
        else if bailout = TERM_DRIVER_SWITCH then [''Driver type switch failed'' @ [CHR 0x0A]]
        else if bailout = TERM_EMPTY_READ then [''Device went offline'' @ [CHR 0x0A]]
        else if bailout = TERM_READ_ERROR then [''Read error from device'' @ [CHR 0x0A]]
        else if bailout = TERM_SIGNAL \<or> bailout = TERM_QUIT then []
        else [''Unknown error, should never happen.'' @ [CHR 0x0A]])
   \<and> distinct [''I/O wait on device failed'' @ [CHR 0x0A],
                ''Driver type switch failed'' @ [CHR 0x0A],
                ''Device went offline'' @ [CHR 0x0A],
                ''Read error from device'' @ [CHR 0x0A],
                ''Unknown error, should never happen.'' @ [CHR 0x0A]]
   \<and> distinct [TERM_SELECT_FAILED, TERM_DRIVER_SWITCH, TERM_EMPTY_READ, TERM_READ_ERROR,
                TERM_SIGNAL, TERM_QUIT]
   \<and> snd (main_quit bailout s) = EXIT_SUCCESS
   \<and> last (trace (fst (main_quit bailout s))) = Exit EXIT_SUCCESS"
proof -
  have m: "stderr_messages (trace (fst (main_quit bailout s))) = stderr_messages (trace s)
     @ (case explanation bailout of None \<Rightarrow> [] | Some m \<Rightarrow> [m])"
    by (simp add: main_quit_def Let_def emit_def stderr_messages_def
        split: option.splits)
  have e: "(case explanation bailout of None \<Rightarrow> [] | Some m \<Rightarrow> [m])
     = (if bailout = TERM_SELECT_FAILED then [''I/O wait on device failed'' @ [CHR 0x0A]]
        else if bailout = TERM_DRIVER_SWITCH then [''Driver type switch failed'' @ [CHR 0x0A]]
        else if bailout = TERM_EMPTY_READ then [''Device went offline'' @ [CHR 0x0A]]
        else if bailout = TERM_READ_ERROR then [''Read error from device'' @ [CHR 0x0A]]
        else if bailout = TERM_SIGNAL \<or> bailout = TERM_QUIT then []
        else [''Unknown error, should never happen.'' @ [CHR 0x0A]])"
    by (simp add: explanation_def)
  have d: "distinct [TERM_SELECT_FAILED, TERM_DRIVER_SWITCH, TERM_EMPTY_READ, TERM_READ_ERROR,
                TERM_SIGNAL, TERM_QUIT]"
    by (simp add: TERM_SELECT_FAILED_def TERM_DRIVER_SWITCH_def TERM_EMPTY_READ_def
        TERM_READ_ERROR_def TERM_SIGNAL_def TERM_QUIT_def)
  have x: "snd (main_quit bailout s) = EXIT_SUCCESS"
    "last (trace (fst (main_quit bailout s))) = Exit EXIT_SUCCESS"
    by (simp_all add: main_quit_def Let_def emit_def)
  show ?thesis
    unfolding m e using d x by simp
qed

subsection \<open>The update hook of the NMEA monitor\<close>

lemma c_strlen_fault: "c_strlen m = Inl f \<Longrightarrow> f = ReadOverrun"
  by (simp add: c_strlen_def split: if_splits)

lemma poke_fault: "poke m i c = Inl f \<Longrightarrow> f = WriteOverflow"
  by (simp add: poke_def split: if_splits)

lemma strlcpy_fault: "strlcpy m off src siz = Inl f \<Longrightarrow> f = WriteOverflow"
  by (simp add: strlcpy_def pokes_def split: if_splits)

lemma nmea_tag_fault: "nmea_tag xmax f0 sent \<noteq> Inl AssertFailed"
  by (auto simp: nmea_tag_def split: if_splits sum.splits
      dest: c_strlen_fault poke_fault strlcpy_fault)

lemma field_string_fault: "field_string flds k \<noteq> Inl AssertFailed"
  by (auto simp: field_string_def split: if_splits option.splits)

lemma nmea_satellites_fault: "nmea_satellites X s \<noteq> Inl AssertFailed"
  by (auto simp: nmea_satellites_def Let_def split: if_splits)

lemma nmea_guard_true:
  assumes "peek (lexer_outbuffer s) 0 = Inr (CHR ''$'')" and "field s = Some (Some f0 # rest)"
  shows "nmea_guard s = Inr (Some (f0, Some f0 # rest))"
  using assms by (simp add: nmea_guard_def)

lemma nmea_update_assert_iff:
  assumes "peek (lexer_outbuffer s) 0 = Inr (CHR ''$'')" and "field s = Some (Some f0 # rest)"
  shows "(nmea_update X ymax xmax s = Inl AssertFailed) = (ymax \<le> 0)"
proof (cases "ymax \<le> 0")
  case True
  then show ?thesis
    by (simp add: nmea_update_def nmea_guard_true [OF assms])
next
  case False
  have "nmea_update X ymax xmax s \<noteq> Inl AssertFailed"
    using False
    by (auto simp: nmea_update_def nmea_guard_true [OF assms] Let_def
        nmea_tag_fault field_string_fault nmea_satellites_fault
        split: sum.splits if_splits)
  with False show ?thesis by simp
qed

lemma length3E: "length xs = Suc (Suc (Suc 0)) \<Longrightarrow> \<exists>a b c. xs = [a, b, c]"
  by (auto simp: length_Suc_conv)

lemma dots_aux:
  "(q @ [a, b, c])[length (q @ [a, b, c]) - 1 := d, length (q @ [a, b, c]) - 2 := d,
      length (q @ [a, b, c]) - 3 := d]
     = take (length (q @ [a, b, c]) - 3) (q @ [a, b, c]) @ [d, d, d]"
  by (simp add: list_update_append)

lemma update_dots:
  assumes "3 \<le> length p"
  shows "p[length p - 1 := d, length p - 2 := d, length p - 3 := d]
           = take (length p - 3) p @ [d, d, d]"
proof -
  have "length (drop (length p - 3) p) = Suc (Suc (Suc 0))"
    using assms by simp
  from length3E [OF this] obtain a b c where "drop (length p - 3) p = [a, b, c]"
    by blast
  then have "take (length p - 3) p @ [a, b, c] = p"
    using append_take_drop_id [of "length p - 3" p] by simp
  then obtain q where pq: "q @ [a, b, c] = p" ..
  show ?thesis
    using dots_aux [of q a b c d] by (simp only: pq)
qed

lemma c_string_split:
  assumes "c_strlen sent = Inr n"
  shows "sent = c_string sent @ NUL # drop (Suc n) sent" and "length (c_string sent) = n"
    and "NUL \<notin> set (c_string sent)"
proof -
  from assms have nul: "NUL \<in> set sent"
    and n: "n = length (takeWhile (\<lambda>c. c \<noteq> NUL) sent)"
    by (auto simp: c_strlen_def split: if_splits)
  have less: "length (takeWhile (\<lambda>c. c \<noteq> NUL) sent) < length sent"
    using nul by (rule length_takeWhile_less_if) simp
  have "\<not> (sent ! n \<noteq> NUL)"
    unfolding n using less by (rule nth_length_takeWhile)
  then have at: "sent ! n = NUL" by simp
  have t: "take n sent = c_string sent"
    unfolding n c_string_def by (rule takeWhile_eq_take [symmetric])
  show "sent = c_string sent @ NUL # drop (Suc n) sent"
    using id_take_nth_drop [of n sent] less at t by (simp add: n)
  show "length (c_string sent) = n"
    by (simp add: n c_string_def)
  show "NUL \<notin> set (c_string sent)"
    by (auto simp: c_string_def dest: set_takeWhileD)
qed

lemma to_int_small: "k < 2 ^ 31 \<Longrightarrow> to_int k = int k"
  by (simp add: to_int_def)

lemma nmea_tag_fits:
  assumes "c_strlen sent = Inr n" and "\<not> strstr_found (c_string sent) f0"
    and "NUL \<notin> set f0" and "n + length f0 + 2 \<le> length sent"
    and "length sent = SENTENCES_SIZE" and "- (2 ^ 31) \<le> xmax - 2"
    and "int (n + length f0) < xmax - 2"
  shows "\<exists>m. nmea_tag xmax f0 sent = Inr m \<and> c_string m = c_string sent @ CHR '' '' # f0"
proof -
  let ?p = "c_string sent"
  let ?r = "drop (Suc n) sent"
  have sent: "sent = ?p @ NUL # ?r" and lp: "length ?p = n" and np: "NUL \<notin> set ?p"
    using c_string_split [OF assms(1)] by auto
  have small: "n + length f0 < 131"
    using assms(4,5) by (simp add: SENTENCES_SIZE_def)
  then have conv: "to_int (size_add n (length f0)) = int (n + length f0)"
    by (simp add: size_add_small to_int_small)
  have n: "n < length sent" using assms(4) by simp
  define m1 where "m1 = sent[n := CHR '' '']"
  have m1: "m1 = ?p @ CHR '' '' # ?r"
    unfolding m1_def by (subst sent) (simp add: lp list_update_append)
  have lm1: "length m1 = length sent" by (simp add: m1_def)
  have "take (SENTENCES_SIZE - 1) f0 = f0"
    using small by (simp add: SENTENCES_SIZE_def)
  then have cp: "strlcpy m1 (n + 1) f0 SENTENCES_SIZE
           = Inr (take (n + 1) m1 @ (f0 @ [NUL]) @ drop (n + 1 + length (f0 @ [NUL])) m1)"
    using assms(4) lm1 by (simp add: strlcpy_def pokes_def SENTENCES_SIZE_def)
  have tk: "take (n + 1) m1 = ?p @ [CHR '' '']"
    by (subst m1) (simp add: lp)
  define m where "m = (?p @ CHR '' '' # f0) @ NUL # drop (n + 1 + length (f0 @ [NUL])) m1"
  have run: "nmea_tag xmax f0 sent = Inr m"
    using assms(1,2,6,7) n cp tk
    by (simp add: nmea_tag_def conv poke_def m1_def [symmetric] m_def)
  have "NUL \<notin> set (?p @ CHR '' '' # f0)"
    using np assms(3) by (simp add: NUL_def)
  then have "c_string m = ?p @ CHR '' '' # f0"
    unfolding m_def c_string_def by (rule takeWhile_upto_NUL)
  with run show ?thesis by blast
qed

lemma nmea_tag_dots:
  assumes "c_strlen sent = Inr n" and "\<not> strstr_found (c_string sent) f0"
    and "3 \<le> n" and "n + length f0 + 2 \<le> length sent"
    and "length sent = SENTENCES_SIZE" and "- (2 ^ 31) \<le> xmax - 2"
    and "\<not> int (n + length f0) < xmax - 2"
  shows "\<exists>m. nmea_tag xmax f0 sent = Inr m
           \<and> c_string m = take (n - 3) (c_string sent) @ ''...''"
proof -
  let ?p = "c_string sent"
  let ?r = "drop (Suc n) sent"
  have sent: "sent = ?p @ NUL # ?r" and lp: "length ?p = n" and np: "NUL \<notin> set ?p"
    using c_string_split [OF assms(1)] by auto
  have small: "n + length f0 < 131"
    using assms(4,5) by (simp add: SENTENCES_SIZE_def)
  then have conv: "to_int (size_add n (length f0)) = int (n + length f0)"
    by (simp add: size_add_small to_int_small)
  define m where "m = sent[n - 1 := CHR ''.'', n - 2 := CHR ''.'', n - 3 := CHR ''.'']"
  have run: "nmea_tag xmax f0 sent = Inr m"
    using assms(1,2,3,6,7) by (simp add: nmea_tag_def conv m_def)
  have "(?p @ NUL # ?r)[n - 1 := CHR ''.'', n - 2 := CHR ''.'', n - 3 := CHR ''.'']
          = ?p[n - 1 := CHR ''.'', n - 2 := CHR ''.'', n - 3 := CHR ''.''] @ NUL # ?r"
    using assms(3) lp by (simp add: list_update_append)
  also have "?p[n - 1 := CHR ''.'', n - 2 := CHR ''.'', n - 3 := CHR ''.'']
          = take (n - 3) ?p @ ''...''"
    using update_dots [of ?p "CHR ''.''"] assms(3) lp by simp
  finally have mm: "m = (take (n - 3) ?p @ ''...'') @ NUL # ?r"
    unfolding m_def using sent by simp
  have "NUL \<notin> set (take (n - 3) ?p @ ''...'')"
    using np by (auto simp: NUL_def dest: in_set_takeD)
  then have "takeWhile (\<lambda>c. c \<noteq> NUL) ((take (n - 3) ?p @ ''...'') @ NUL # ?r)
               = take (n - 3) ?p @ ''...''"
    by (rule takeWhile_upto_NUL)
  then have "c_string m = take (n - 3) ?p @ ''...''"
    by (subst mm) (simp only: c_string_def)
  with run show ?thesis by blast
qed

lemma nmea_tick_sentences: "sentences (nmea_tick X s) = sentences s"
  by (simp add: nmea_tick_def Let_def)

text \<open>
  Claim C9. When the packet starts with a dollar sign and \<^verbatim>\<open>fields[0]\<close> is not \<^verbatim>\<open>NULL\<close>,
  \<^verbatim>\<open>nmea_update\<close> fails its assertion exactly when the value found in the unassigned
  local \<^verbatim>\<open>ymax\<close> is not positive: nothing the hook is given decides it. When the
  assertion holds and the tag of the sentence is new (and not GSV), whether the tag is
  appended to the list or the list's last three characters become dots is decided by the
  value found in the unassigned local \<^verbatim>\<open>xmax\<close>.
\<close>

theorem nmea_update_unassigned_locals:
  assumes "peek (lexer_outbuffer s) 0 = Inr (CHR ''$'')" and "field s = Some (Some f0 # rest)"
  shows "(nmea_update X ymax xmax s = Inl AssertFailed) = (ymax \<le> 0)
       \<and> (0 < ymax \<and> c_strlen (sentences s) = Inr n \<and> 3 \<le> n
            \<and> \<not> strstr_found (c_string (sentences s)) f0 \<and> NUL \<notin> set f0
            \<and> n + length f0 + 2 \<le> length (sentences s)
            \<and> length (sentences s) = SENTENCES_SIZE \<and> - (2 ^ 31) \<le> xmax - 2
            \<and> \<not> (4 < length f0 \<and> drop 2 f0 = ''GSV'')
          \<longrightarrow> (\<exists>s'. nmea_update X ymax xmax s = Inr s'
                 \<and> c_string (sentences s')
                     = (if int (n + length f0) < xmax - 2
                        then c_string (sentences s) @ CHR '' '' # f0
                        else take (n - 3) (c_string (sentences s)) @ ''...'')))"
proof (intro conjI impI)
  show "(nmea_update X ymax xmax s = Inl AssertFailed) = (ymax \<le> 0)"
    using assms by (rule nmea_update_assert_iff)
next
  assume a: "0 < ymax \<and> c_strlen (sentences s) = Inr n \<and> 3 \<le> n
            \<and> \<not> strstr_found (c_string (sentences s)) f0 \<and> NUL \<notin> set f0
            \<and> n + length f0 + 2 \<le> length (sentences s)
            \<and> length (sentences s) = SENTENCES_SIZE \<and> - (2 ^ 31) \<le> xmax - 2
            \<and> \<not> (4 < length f0 \<and> drop 2 f0 = ''GSV'')"
  have "\<exists>m. nmea_tag xmax f0 (sentences s) = Inr m
          \<and> c_string m = (if int (n + length f0) < xmax - 2
                        then c_string (sentences s) @ CHR '' '' # f0
                        else take (n - 3) (c_string (sentences s)) @ ''...'')"
  proof (cases "int (n + length f0) < xmax - 2")
    case True
    then show ?thesis
      using a nmea_tag_fits [of "sentences s" n f0 xmax] by simp
  next
    case False
    then show ?thesis
      using a nmea_tag_dots [of "sentences s" n f0 xmax] by simp
  qed
  then obtain m where m: "nmea_tag xmax f0 (sentences s) = Inr m"
    "c_string m = (if int (n + length f0) < xmax - 2
                        then c_string (sentences s) @ CHR '' '' # f0
                        else take (n - 3) (c_string (sentences s)) @ ''...'')"
    by blast
  have "nmea_update X ymax xmax s = Inr (nmea_tick X (s\<lparr>sentences := m\<rparr>))"
    using a m(1) by (auto simp: nmea_update_def nmea_guard_true [OF assms] Let_def)
  then show "\<exists>s'. nmea_update X ymax xmax s = Inr s'
                 \<and> c_string (sentences s')
                     = (if int (n + length f0) < xmax - 2
                        then c_string (sentences s) @ CHR '' '' # f0
                        else take (n - 3) (c_string (sentences s)) @ ''...'')"
    using m(2) by (simp add: nmea_tick_sentences)
qed

theorem nmea_update_unassigned_locals_witness:
  "peek (lexer_outbuffer sample_nmea) 0 = Inr (CHR ''$'')
   \<and> field sample_nmea = Some (Some ''GPRMC'' # [Some ''1''])
   \<and> c_strlen (sentences sample_nmea) = Inr 4
   \<and> \<not> strstr_found (c_string (sentences sample_nmea)) ''GPRMC''
   \<and> length (sentences sample_nmea) = SENTENCES_SIZE
   \<and> nmea_update sample_nmea_extern 0 80 sample_nmea = Inl AssertFailed
   \<and> nmea_update sample_nmea_extern (- 7) 80 sample_nmea = Inl AssertFailed
   \<and> nmea_update sample_nmea_extern 24 80 sample_nmea \<noteq> Inl AssertFailed
   \<and> (\<exists>s'. nmea_update sample_nmea_extern 24 80 sample_nmea = Inr s'
          \<and> c_string (sentences s') = '' GGA GPRMC'')
   \<and> (\<exists>s'. nmea_update sample_nmea_extern 24 0 sample_nmea = Inr s'
          \<and> c_string (sentences s') = '' ...'')"
  using nmea_update_unassigned_locals [of sample_nmea "''GPRMC''" "[Some ''1'']"
      sample_nmea_extern 0 80 4]
    nmea_update_unassigned_locals [of sample_nmea "''GPRMC''" "[Some ''1'']"
      sample_nmea_extern "- 7" 80 4]
    nmea_update_unassigned_locals [of sample_nmea "''GPRMC''" "[Some ''1'']"
      sample_nmea_extern 24 80 4]
    nmea_update_unassigned_locals [of sample_nmea "''GPRMC''" "[Some ''1'']"
      sample_nmea_extern 24 0 4]
  by (simp add: sample_nmea_def peek_def c_strlen_def c_string_def NUL_def SENTENCES_SIZE_def)

end
